theory Spec2Isabelle
  imports Main "HOL-Library.Word"
begin

unbundle bit_operations_syntax

chapter \<open>The CAN socket engine of libdigiapix (src/can.c)\<close>

text \<open>
  A shallow embedding of \<^verbatim>\<open>src/can.c\<close>: the frame-length codec, the error-string lookup,
  the callback lists and the dispatch of an event, the two poll variants, the life cycle
  of the transmit and receive sockets, and the transmit path.

  The C functions talk to the kernel. Every system call is modelled by what it returns:
  a persistent part (\<open>kernel\<close>: the open descriptors and, per socket, the finite queue of
  results the next \<^verbatim>\<open>recvmsg\<close> calls will give) and, for calls made once, a record of
  scripted results passed to the function. \<^verbatim>\<open>errno\<close> travels with the result of the call
  that set it. A callback is a function pointer (\<open>None\<close> is \<^verbatim>\<open>NULL\<close>); calling it is
  recorded in a trace, in call order. Threads and the mutex's blocking are not modelled:
  only the return value of \<^verbatim>\<open>pthread_mutex_lock\<close> is.
\<close>

section \<open>Machine types and constants of the system headers\<close>

type_synonym u8 = "8 word"
type_synonym u32 = "32 word"

text \<open>Function pointers: an address; \<open>None\<close> is \<^verbatim>\<open>NULL\<close>.\<close>
type_synonym fnptr = nat

text \<open>Linux \<^verbatim>\<open>errno\<close> values, \<^verbatim>\<open>EXIT_SUCCESS\<close>, and the constants of \<^verbatim>\<open>linux/can.h\<close>.\<close>

definition EINTR :: int where "EINTR = 4"
definition EBADF :: int where "EBADF = 9"
definition EAGAIN :: int where "EAGAIN = 11"
definition ENETDOWN :: int where "ENETDOWN = 100"
definition ENOBUFS :: int where "ENOBUFS = 105"
definition EXIT_SUCCESS :: int where "EXIT_SUCCESS = 0"

definition CAN_MTU :: int where "CAN_MTU = 16"
definition CANFD_MTU :: int where "CANFD_MTU = 72"
definition CAN_ERR_FLAG :: u32 where "CAN_ERR_FLAG = 0x20000000"

text \<open>C's integer division truncates towards zero.\<close>
definition c_div :: "int \<Rightarrow> int \<Rightarrow> int" where
  "c_div a b = sgn a * sgn b * (\<bar>a\<bar> div \<bar>b\<bar>)"

text \<open>A read of a C array: outside the array the behaviour is undefined, here a fault.\<close>
datatype fault = Out_of_bounds

definition array_read :: "'a list \<Rightarrow> int \<Rightarrow> fault + 'a" where
  "array_read xs i = (if 0 \<le> i \<and> nat i < length xs then Inr (xs ! nat i) else Inl Out_of_bounds)"

section \<open>Frame-length codec\<close>

definition dlc2len :: "u8 list" where
  "dlc2len = [0, 1, 2, 3, 4, 5, 6, 7,
              8, 12, 16, 20, 24, 32, 48, 64]"

text \<open>The index \<open>can_dlc AND 0x0F\<close> is below 16, the length of \<open>dlc2len\<close>
  (lemma \<open>can_dlc2len_index\<close>).\<close>
definition can_dlc2len :: "u8 \<Rightarrow> u8" where
  "can_dlc2len can_dlc = dlc2len ! unat (can_dlc AND 0x0F)"

definition len2dlc :: "u8 list" where
  "len2dlc = [0, 1, 2, 3, 4, 5, 6, 7, 8,
              9, 9, 9, 9,
              10, 10, 10, 10,
              11, 11, 11, 11,
              12, 12, 12, 12,
              13, 13, 13, 13, 13, 13, 13, 13,
              14, 14, 14, 14, 14, 14, 14, 14,
              14, 14, 14, 14, 14, 14, 14, 14,
              15, 15, 15, 15, 15, 15, 15, 15,
              15, 15, 15, 15, 15, 15, 15, 15]"

text \<open>The macro \<^verbatim>\<open>CAN_LEN2DLC(len)\<close>: \<^verbatim>\<open>len > 64 ? 0xF : len2dlc[len]\<close>. The table is read
  only for \<open>n \<le> 64\<close>, inside its 65 entries (lemma \<open>CAN_LEN2DLC_index\<close>).\<close>
definition CAN_LEN2DLC :: "u8 \<Rightarrow> u8" where
  "CAN_LEN2DLC n = (if n > 64 then 0xF else len2dlc ! unat n)"

section \<open>Error codes and their strings\<close>

text \<open>
  Modelled from the spec: the enumeration \<^verbatim>\<open>can_error_t\<close> and \<^verbatim>\<open>CAN_ERROR_MAX\<close> are declared in
  \<^verbatim>\<open>can.h\<close>, which is not among the sources. The spec says: ``Errors are small positive
  integer codes (zero reserved for success)''. The constants are the names \<^verbatim>\<open>can.c\<close>
  uses, numbered from zero, the names of the string table first, in the table's order.
  The results below use of the numbering only that \<^verbatim>\<open>CAN_ERROR_NONE\<close> is 0, that every other code is positive and below \<^verbatim>\<open>CAN_ERROR_MAX\<close>,
  and that different names have different codes.
\<close>

definition CAN_ERROR_NONE :: int where "CAN_ERROR_NONE = 0"
definition CAN_ERROR_NULL_INTERFACE :: int where "CAN_ERROR_NULL_INTERFACE = 1"
definition CAN_ERROR_IFR_IDX :: int where "CAN_ERROR_IFR_IDX = 2"
definition CAN_ERROR_NO_MEM :: int where "CAN_ERROR_NO_MEM = 3"
definition CAN_ERROR_NL_GET_STATE :: int where "CAN_ERROR_NL_GET_STATE = 4"
definition CAN_ERROR_NL_START :: int where "CAN_ERROR_NL_START = 5"
definition CAN_ERROR_NL_STOP :: int where "CAN_ERROR_NL_STOP = 6"
definition CAN_ERROR_NL_STATE_MISSMATCH :: int where "CAN_ERROR_NL_STATE_MISSMATCH = 7"
definition CAN_ERROR_NL_BITRATE :: int where "CAN_ERROR_NL_BITRATE = 8"
definition CAN_ERROR_NL_RESTART :: int where "CAN_ERROR_NL_RESTART = 9"
definition CAN_ERROR_NL_SET_RESTART_MS :: int where "CAN_ERROR_NL_SET_RESTART_MS = 10"
definition CAN_ERROR_NL_GET_RESTART_MS :: int where "CAN_ERROR_NL_GET_RESTART_MS = 11"
definition CAN_ERROR_NL_RSTMS_MISSMATCH :: int where "CAN_ERROR_NL_RSTMS_MISSMATCH = 12"
definition CAN_ERROR_NL_SET_CTRL_MODE :: int where "CAN_ERROR_NL_SET_CTRL_MODE = 13"
definition CAN_ERROR_NL_GET_CTRL_MODE :: int where "CAN_ERROR_NL_GET_CTRL_MODE = 14"
definition CAN_ERROR_NL_CTRL_MISSMATCH :: int where "CAN_ERROR_NL_CTRL_MISSMATCH = 15"
definition CAN_ERROR_NL_GET_DEV_STATS :: int where "CAN_ERROR_NL_GET_DEV_STATS = 16"
definition CAN_ERROR_NL_SET_BIT_TIMING :: int where "CAN_ERROR_NL_SET_BIT_TIMING = 17"
definition CAN_ERROR_NL_GET_BIT_TIMING :: int where "CAN_ERROR_NL_GET_BIT_TIMING = 18"
definition CAN_ERROR_NL_BT_MISSMATCH :: int where "CAN_ERROR_NL_BT_MISSMATCH = 19"
definition CAN_ERROR_NL_GET_BIT_ERR_CNT :: int where "CAN_ERROR_NL_GET_BIT_ERR_CNT = 20"
definition CAN_ERROR_NL_BR_MISSMATCH :: int where "CAN_ERROR_NL_BR_MISSMATCH = 21"
definition CAN_ERROR_TX_SKT_CREATE :: int where "CAN_ERROR_TX_SKT_CREATE = 22"
definition CAN_ERROR_TX_SKT_WR :: int where "CAN_ERROR_TX_SKT_WR = 23"
definition CAN_ERROR_TX_SKT_BIND :: int where "CAN_ERROR_TX_SKT_BIND = 24"
definition CAN_ERROR_TX_RETRY_LATER :: int where "CAN_ERROR_TX_RETRY_LATER = 25"
definition CAN_ERROR_INCOMP_FRAME :: int where "CAN_ERROR_INCOMP_FRAME = 26"
definition CAN_ERROR_SETSKTOPT_RAW_FLT :: int where "CAN_ERROR_SETSKTOPT_RAW_FLT = 27"
definition CAN_ERROR_SETSKTOPT_ERR_FLT :: int where "CAN_ERROR_SETSKTOPT_ERR_FLT = 28"
definition CAN_ERROR_SETSKTOPT_CANFD :: int where "CAN_ERROR_SETSKTOPT_CANFD = 29"
definition CAN_ERROR_SETSKTOPT_TIMESTAMP :: int where "CAN_ERROR_SETSKTOPT_TIMESTAMP = 30"
definition CAN_ERROR_SETSKTOPT_SNDBUF :: int where "CAN_ERROR_SETSKTOPT_SNDBUF = 31"
definition CAN_ERROR_GETSKTOPT_SNDBUF :: int where "CAN_ERROR_GETSKTOPT_SNDBUF = 32"
definition CAN_ERROR_SETSKTOPT_RCVBUF :: int where "CAN_ERROR_SETSKTOPT_RCVBUF = 33"
definition CAN_ERROR_GETSKTOPT_RCVBUF :: int where "CAN_ERROR_GETSKTOPT_RCVBUF = 34"
definition CAN_ERROR_DROPPED_FRAMES :: int where "CAN_ERROR_DROPPED_FRAMES = 35"
definition CAN_ERROR_NOT_CANFD :: int where "CAN_ERROR_NOT_CANFD = 36"
definition CAN_ERROR_SIOCGIFMTU :: int where "CAN_ERROR_SIOCGIFMTU = 37"
definition CAN_ERROR_NETWORK_DOWN :: int where "CAN_ERROR_NETWORK_DOWN = 38"
definition CAN_ERROR_RX_SKT_CREATE :: int where "CAN_ERROR_RX_SKT_CREATE = 39"
definition CAN_ERROR_RX_SKT_BIND :: int where "CAN_ERROR_RX_SKT_BIND = 40"
definition CAN_ERROR_REG_ERR_HDLR :: int where "CAN_ERROR_REG_ERR_HDLR = 41"
definition CAN_ERROR_ERR_CB_ALR_REG :: int where "CAN_ERROR_ERR_CB_ALR_REG = 42"
definition CAN_ERROR_ERR_CB_NOT_FOUND :: int where "CAN_ERROR_ERR_CB_NOT_FOUND = 43"
definition CAN_ERROR_RX_CB_ALR_REG :: int where "CAN_ERROR_RX_CB_ALR_REG = 44"
definition CAN_ERROR_RX_CB_NOT_FOUND :: int where "CAN_ERROR_RX_CB_NOT_FOUND = 45"
definition CAN_ERROR_THREAD_ALLOC :: int where "CAN_ERROR_THREAD_ALLOC = 46"
definition CAN_ERROR_THREAD_CREATE :: int where "CAN_ERROR_THREAD_CREATE = 47"
definition CAN_ERROR_THREAD_MUTEX_INIT :: int where "CAN_ERROR_THREAD_MUTEX_INIT = 48"
definition CAN_ERROR_THREAD_MUTEX_LOCK :: int where "CAN_ERROR_THREAD_MUTEX_LOCK = 49"

text \<open>Modelled from the spec: \<^verbatim>\<open>CAN_ERROR_MAX\<close> (of the absent \<^verbatim>\<open>can.h\<close>), the bound of the
  enumeration, above every code.\<close>
definition CAN_ERROR_MAX :: int where
  "CAN_ERROR_MAX = 50"

text \<open>The designated initialisers of \<^verbatim>\<open>__can_error_str\<close>, as written in \<^verbatim>\<open>can.c\<close>.\<close>
definition can_error_str_init :: "(int \<times> string) list" where
  "can_error_str_init =
    [(CAN_ERROR_NONE, ''Success''),
     (CAN_ERROR_NULL_INTERFACE, ''CAN interface is NULL''),
     (CAN_ERROR_IFR_IDX, ''Interface index error''),
     (CAN_ERROR_NO_MEM, ''No memory''),
     (CAN_ERROR_NL_GET_STATE, ''Get netlink interface state''),
     (CAN_ERROR_NL_START, ''Start interface''),
     (CAN_ERROR_NL_STOP, ''Stop interface''),
     (CAN_ERROR_NL_STATE_MISSMATCH, ''Netlink state set does not match value read''),
     (CAN_ERROR_NL_BITRATE, ''Set interface bitrate''),
     (CAN_ERROR_NL_RESTART, ''Restart interface error''),
     (CAN_ERROR_NL_SET_RESTART_MS, ''Set restart ms error''),
     (CAN_ERROR_NL_GET_RESTART_MS, ''Get restart ms error''),
     (CAN_ERROR_NL_RSTMS_MISSMATCH, ''Restart ms value set does not match value read''),
     (CAN_ERROR_NL_SET_CTRL_MODE, ''Set ctrl mode error''),
     (CAN_ERROR_NL_GET_CTRL_MODE, ''Get ctrl mode error''),
     (CAN_ERROR_NL_CTRL_MISSMATCH, ''Get ctrl mode value set does not match value read''),
     (CAN_ERROR_NL_GET_DEV_STATS, ''Get device statistics error''),
     (CAN_ERROR_NL_SET_BIT_TIMING, ''Set bit timing error''),
     (CAN_ERROR_NL_GET_BIT_TIMING, ''Get bit timing error''),
     (CAN_ERROR_NL_BT_MISSMATCH, ''Bit timing value set does not match value read''),
     (CAN_ERROR_NL_GET_BIT_ERR_CNT, ''Get bit error counter error''),
     (CAN_ERROR_NL_BR_MISSMATCH, ''Bitrate value set does not match value read''),
     (CAN_ERROR_TX_SKT_CREATE, ''Socket create error''),
     (CAN_ERROR_TX_SKT_WR, ''Socket write error''),
     (CAN_ERROR_TX_SKT_BIND, ''Socket bind error''),
     (CAN_ERROR_TX_RETRY_LATER, ''TX retry later''),
     (CAN_ERROR_INCOMP_FRAME, ''Incomplete TX frame''),
     (CAN_ERROR_SETSKTOPT_RAW_FLT, ''setsocketopt CAN_RAW_FILTER error''),
     (CAN_ERROR_SETSKTOPT_ERR_FLT, ''setsocketopt CAN_RAW_ERR_FILTER error''),
     (CAN_ERROR_SETSKTOPT_CANFD, ''setsocketopt CAN_RAW_FD_FRAMES error''),
     (CAN_ERROR_SETSKTOPT_TIMESTAMP, ''setsocketopt SO_TIMESTAMP error''),
     (CAN_ERROR_SETSKTOPT_SNDBUF, ''setsocketopt SO_SNDBUF error''),
     (CAN_ERROR_GETSKTOPT_SNDBUF, ''getsocketopt SO_SNDBUF error''),
     (CAN_ERROR_SETSKTOPT_RCVBUF, ''setsocketopt SO_RCVBUF error''),
     (CAN_ERROR_GETSKTOPT_RCVBUF, ''getsocketopt SO_RCVBUF error''),
     (CAN_ERROR_DROPPED_FRAMES, ''Dropped frames'')]"

text \<open>The array \<^verbatim>\<open>__can_error_str[CAN_ERROR_MAX + 1]\<close>: the entry at a designated index is
  its string, every other entry is \<^verbatim>\<open>NULL\<close>.\<close>
definition can_error_str :: "string option list" where
  "can_error_str =
     map (\<lambda>i. map_of can_error_str_init (int i))
         [0 ..< nat (CAN_ERROR_MAX + 1)]"

definition ldx_can_strerror :: "int \<Rightarrow> fault + string option" where
  "ldx_can_strerror error =
     (if error > 0 \<and> error < CAN_ERROR_MAX then array_read can_error_str error
      else Inr None)"

section \<open>Data model\<close>

text \<open>\<^verbatim>\<open>struct canfd_frame\<close>, \<^verbatim>\<open>struct timeval\<close>, \<^verbatim>\<open>struct timespec\<close>.\<close>

record canfd_frame =
  can_id :: u32
  len :: u8
  flags :: u8
  data :: "u8 list"

record timeval =
  tv_sec :: int
  tv_usec :: int

record timespec =
  tv_sec :: int
  tv_nsec :: int

text \<open>\<^verbatim>\<open>ldx_can_event_t\<close>: the fields \<^verbatim>\<open>can.c\<close> reads and writes.\<close>

record ldx_can_event =
  frame :: canfd_frame
  tstamp :: timeval
  dropped_frames :: u32
  is_rx :: bool
  is_error :: bool
  rx_skt :: int

text \<open>\<^verbatim>\<open>memset(&evt, 0, sizeof(evt))\<close>.\<close>
definition evt_zero :: ldx_can_event where
  "evt_zero = \<lparr>frame = \<lparr>can_id = 0, len = 0, flags = 0, data = replicate 64 0\<rparr>,
               tstamp = \<lparr>timeval.tv_sec = 0, tv_usec = 0\<rparr>,
               dropped_frames = 0, is_rx = False, is_error = False, rx_skt = 0\<rparr>"

text \<open>The entries of the two callback lists. \<^verbatim>\<open>list_add\<close> puts a new entry at the head and
  \<^verbatim>\<open>list_for_each_entry\<close> walks from the head, so a list is a HOL list, newest first.\<close>

record can_cb =
  rx_skt :: int
  handler :: "fnptr option"

record can_err_cb =
  handler :: "fnptr option"

text \<open>\<^verbatim>\<open>can_if_cfg_t\<close>; \<open>ctrl_mode_mask\<close> is \<^verbatim>\<open>ctrl_mode.mask\<close> and \<open>bit_timing_bitrate\<close> is
  \<^verbatim>\<open>bit_timing.bitrate\<close>.\<close>

record can_if_cfg =
  nl_cmd_verify :: bool
  canfd_enabled :: bool
  process_header :: bool
  hw_timestamp :: bool
  bitrate :: u32
  dbitrate :: u32
  restart_ms :: u32
  ctrl_mode_mask :: u32
  ctrl_mode_flags :: u32
  bit_timing_bitrate :: u32
  error_mask :: u32
  polled_mode :: bool
  tx_buf_len :: int
  tx_buf_len_rd :: int
  rx_buf_len :: int
  rx_buf_len_rd :: int

text \<open>\<^verbatim>\<open>can_priv_t\<close>. \<open>can_fds\<close> is the \<^verbatim>\<open>fd_set\<close>; \<open>can_thr\<close> tells whether the thread
  pointer is non-null; \<open>ifr_ifru\<close> is the union of \<^verbatim>\<open>struct ifreq\<close> that \<^verbatim>\<open>ifr_ifindex\<close> and
  \<^verbatim>\<open>ifr_mtu\<close> both name; \<open>iov_base\<close> tells whether the shared \<^verbatim>\<open>iovec\<close> points at an
  event's frame.\<close>

record can_priv =
  tx_skt :: int
  can_fds :: "int set"
  maxfd :: int
  rx_cb_list_head :: "can_cb list"
  err_cb_list_head :: "can_err_cb list"
  has_mutex :: bool
  can_thr :: bool
  run_thr :: bool
  can_tout :: timeval
  ifr_name :: string
  ifr_ifru :: int
  addr_can_family :: int
  addr_can_ifindex :: int
  iov_base :: bool

text \<open>\<^verbatim>\<open>can_if_t\<close>; \<open>pdata\<close> is the private state \<^verbatim>\<open>_data\<close> points to.\<close>

record can_if =
  name :: string
  cfg :: can_if_cfg
  dropped_frames :: u32
  pdata :: can_priv

text \<open>The macros of the absent \<^verbatim>\<open>can.h\<close> that mark a setting as not given, and the default
  poll timeout. Nothing is known of their values, so they are a parameter of the functions
  that use them.\<close>

record can_h_macros =
  LDX_CAN_INVALID_BITRATE :: u32
  LDX_CAN_INVALID_RESTART_MS :: u32
  LDX_CAN_UNCONFIGURED_MASK :: u32
  LDX_CAN_DEF_TOUT_SEC :: int
  LDX_CAN_DEF_TOUT_USEC :: int

section \<open>The kernel side\<close>

text \<open>An ancillary message of a received datagram. The first three are of level
  \<^verbatim>\<open>SOL_SOCKET\<close> and of types \<^verbatim>\<open>SO_RXQ_OVFL\<close>, \<^verbatim>\<open>SO_TIMESTAMP\<close> and \<^verbatim>\<open>SO_TIMESTAMPING\<close>
  (with \<^verbatim>\<open>stamp[0]\<close>, \<^verbatim>\<open>stamp[1]\<close>, \<^verbatim>\<open>stamp[2]\<close>).\<close>

datatype cmsg =
    Cmsg_rxq_ovfl u32
  | Cmsg_timestamp timeval
  | Cmsg_timestamping timespec timespec timespec
  | Cmsg_other_type
  | Cmsg_other_level

text \<open>What one \<^verbatim>\<open>recvmsg\<close> gives: the byte count (or -1 and \<^verbatim>\<open>errno\<close>), the frame and the
  ancillary messages.\<close>

record recv_msg =
  r_nbytes :: int
  r_errno :: int
  r_frame :: canfd_frame
  r_cmsgs :: "cmsg list"

record kernel =
  open_fds :: "int set"
  sock_queue :: "int \<Rightarrow> recv_msg list"

text \<open>The sockets are non-blocking: on an empty queue \<^verbatim>\<open>recvmsg\<close> fails with \<^verbatim>\<open>EAGAIN\<close>.\<close>

definition recvmsg :: "kernel \<Rightarrow> int \<Rightarrow> recv_msg \<times> kernel" where
  "recvmsg k fd =
     (case sock_queue k fd of
        [] \<Rightarrow> (\<lparr>r_nbytes = - 1, r_errno = EAGAIN, r_frame = frame evt_zero, r_cmsgs = []\<rparr>, k)
      | m # ms \<Rightarrow> (m, k\<lparr>sock_queue := (sock_queue k)(fd := ms)\<rparr>))"

definition close_fd :: "kernel \<Rightarrow> int \<Rightarrow> kernel" where
  "close_fd k fd = k\<lparr>open_fds := open_fds k - {fd}\<rparr>"

text \<open>\<^verbatim>\<open>socket()\<close> gives a new descriptor, or a negative value.\<close>
definition socket_fd :: "kernel \<Rightarrow> int \<Rightarrow> kernel" where
  "socket_fd k fd = (if fd < 0 then k else k\<lparr>open_fds := insert fd (open_fds k)\<rparr>)"

text \<open>What \<^verbatim>\<open>select\<close> gives: its return value, \<^verbatim>\<open>errno\<close>, and the descriptor set as
  \<^verbatim>\<open>select\<close> leaves it.\<close>

record select_result =
  sel_ret :: int
  sel_errno :: int
  sel_fds :: "int set"

section \<open>Mutex\<close>

text \<open>\<open>lock_ret\<close> is what \<^verbatim>\<open>pthread_mutex_lock\<close> returns.\<close>
definition ldx_can_lock_mutex :: "can_if \<Rightarrow> int \<Rightarrow> int" where
  "ldx_can_lock_mutex cif lock_ret =
     (if has_mutex (pdata cif) \<and> lock_ret \<noteq> 0 then - CAN_ERROR_THREAD_MUTEX_LOCK else 0)"

section \<open>Callbacks and dispatch\<close>

text \<open>A call of a handler: the handler and its arguments (the \<^verbatim>\<open>void *data\<close> of an error
  handler is always \<^verbatim>\<open>NULL\<close> in \<^verbatim>\<open>can.c\<close>).\<close>

datatype cb_call =
    Err_call fnptr int
  | Rx_call fnptr canfd_frame timeval

fun is_Err_call :: "cb_call \<Rightarrow> bool" where
  "is_Err_call (Err_call h e) = True"
| "is_Err_call (Rx_call h f t) = False"

fun is_Rx_call :: "cb_call \<Rightarrow> bool" where
  "is_Rx_call (Err_call h e) = False"
| "is_Rx_call (Rx_call h f t) = True"

text \<open>The loop \<^verbatim>\<open>list_for_each_entry(err_cb, ...) if (err_cb->handler) err_cb->handler(error, data)\<close>.\<close>

fun call_err_handlers :: "can_err_cb list \<Rightarrow> int \<Rightarrow> cb_call list" where
  "call_err_handlers [] error = []"
| "call_err_handlers (err_cb # rest) error =
     (case can_err_cb.handler err_cb of
        None \<Rightarrow> call_err_handlers rest error
      | Some h \<Rightarrow> Err_call h error # call_err_handlers rest error)"

definition ldx_can_call_err_cb :: "can_if \<Rightarrow> int \<Rightarrow> cb_call list" where
  "ldx_can_call_err_cb cif error = call_err_handlers (err_cb_list_head (pdata cif)) error"

text \<open>The receive loop of \<^verbatim>\<open>ldx_can_dispatch_evt\<close>.\<close>

fun call_rx_handlers :: "can_cb list \<Rightarrow> ldx_can_event \<Rightarrow> cb_call list" where
  "call_rx_handlers [] evt = []"
| "call_rx_handlers (rx_cb # rest) evt =
     (case can_cb.handler rx_cb of
        None \<Rightarrow> call_rx_handlers rest evt
      | Some h \<Rightarrow>
          (if can_cb.rx_skt rx_cb = ldx_can_event.rx_skt evt
           then Rx_call h (frame evt) (tstamp evt) # call_rx_handlers rest evt
           else call_rx_handlers rest evt))"

text \<open>\<^verbatim>\<open>ldx_can_dispatch_evt\<close>; the frame identifier is passed as the \<^verbatim>\<open>int\<close> error.\<close>

definition ldx_can_dispatch_evt :: "can_if \<Rightarrow> ldx_can_event \<Rightarrow> cb_call list" where
  "ldx_can_dispatch_evt cif evt =
     (if is_error evt then
        call_err_handlers (err_cb_list_head (pdata cif)) (sint (can_id (frame evt)))
      else if is_rx evt then
        (if ldx_can_event.dropped_frames evt \<noteq> 0
         then ldx_can_call_err_cb cif CAN_ERROR_DROPPED_FRAMES else [])
        @ (if is_error evt
           then call_err_handlers (err_cb_list_head (pdata cif)) (sint (can_id (frame evt)))
           else [])
        @ call_rx_handlers (rx_cb_list_head (pdata cif)) evt
      else [])"

section \<open>Reading one datagram\<close>

text \<open>\<^verbatim>\<open>process_can_process_msgheader\<close>: the loop runs while the message's level is
  \<^verbatim>\<open>SOL_SOCKET\<close>.\<close>

fun process_can_process_msgheader :: "cmsg list \<Rightarrow> timeval \<Rightarrow> u32 \<Rightarrow> timeval \<times> u32" where
  "process_can_process_msgheader [] tv df = (tv, df)"
| "process_can_process_msgheader (Cmsg_rxq_ovfl n # rest) tv df =
     process_can_process_msgheader rest tv n"
| "process_can_process_msgheader (Cmsg_timestamp t # rest) tv df =
     process_can_process_msgheader rest t df"
| "process_can_process_msgheader (Cmsg_timestamping s0 s1 s2 # rest) tv df =
     process_can_process_msgheader rest
       (tv\<lparr>timeval.tv_sec := timespec.tv_sec s2, tv_usec := c_div (tv_nsec s2) 1000\<rparr>) df"
| "process_can_process_msgheader (Cmsg_other_type # rest) tv df =
     process_can_process_msgheader rest tv df"
| "process_can_process_msgheader (Cmsg_other_level # rest) tv df = (tv, df)"

definition ldx_can_io_set_evt_ptr :: "can_if \<Rightarrow> can_if" where
  "ldx_can_io_set_evt_ptr cif = cif\<lparr>pdata := (pdata cif)\<lparr>iov_base := True\<rparr>\<rparr>"

definition ldx_can_io_clear_evt_ptr :: "can_if \<Rightarrow> can_if" where
  "ldx_can_io_clear_evt_ptr cif = cif\<lparr>pdata := (pdata cif)\<lparr>iov_base := False\<rparr>\<rparr>"

text \<open>The functions below return the C return value first, then what they changed.\<close>

definition ldx_can_read_tx_socket_i ::
  "can_if \<Rightarrow> ldx_can_event \<Rightarrow> kernel \<Rightarrow> int \<times> ldx_can_event \<times> can_if \<times> kernel" where
  "ldx_can_read_tx_socket_i cif evt k =
     (case recvmsg k (tx_skt (pdata (ldx_can_io_set_evt_ptr cif))) of (m, k') \<Rightarrow>
        let cif' = ldx_can_io_clear_evt_ptr (ldx_can_io_set_evt_ptr cif);
            nbytes = r_nbytes m
        in if nbytes < 0 then
             (if r_errno m = ENETDOWN then (- CAN_ERROR_NETWORK_DOWN, evt, cif', k')
              else (EXIT_SUCCESS, evt, cif', k'))
           else if nbytes > 0 then
             (nbytes,
              evt\<lparr>frame := r_frame m, is_error := (0 \<noteq> (can_id (r_frame m) AND CAN_ERR_FLAG))\<rparr>,
              cif', k')
           else (nbytes, evt, cif', k'))"

definition ldx_can_read_rx_socket_i ::
  "can_if \<Rightarrow> int \<Rightarrow> ldx_can_event \<Rightarrow> kernel \<Rightarrow> int \<times> ldx_can_event \<times> can_if \<times> kernel" where
  "ldx_can_read_rx_socket_i cif skt evt k =
     (case recvmsg k skt of (m, k') \<Rightarrow>
        let cif' = ldx_can_io_clear_evt_ptr (ldx_can_io_set_evt_ptr cif);
            nbytes = r_nbytes m
        in if nbytes < 0 then
             (if r_errno m = ENETDOWN then (- CAN_ERROR_NETWORK_DOWN, evt, cif', k')
              else (0, evt, cif', k'))
           else if nbytes = 0 then (EXIT_SUCCESS, evt, cif', k')
           else
             let evt1 = evt\<lparr>frame := r_frame m\<rparr>;
                 hdr = process_can_process_msgheader (r_cmsgs m) (tstamp evt1)
                         (ldx_can_event.dropped_frames evt1);
                 evt2 = (if process_header (cfg cif')
                         then evt1\<lparr>tstamp := fst hdr, ldx_can_event.dropped_frames := snd hdr\<rparr>
                         else evt1);
                 cif'' = (if process_header (cfg cif') \<and> ldx_can_event.dropped_frames evt2 \<noteq> 0
                          then cif'\<lparr>can_if.dropped_frames := ldx_can_event.dropped_frames evt2\<rparr>
                          else cif')
             in (nbytes,
                 evt2\<lparr>is_rx := True, ldx_can_event.rx_skt := skt,
                      is_error := (0 \<noteq> (can_id (frame evt2) AND CAN_ERR_FLAG))\<rparr>,
                 cif'', k'))"

section \<open>Draining a socket\<close>

text \<open>\<^verbatim>\<open>ldx_can_process_tx_socket\<close> and \<^verbatim>\<open>ldx_can_process_rx_socket\<close>: read and dispatch
  while the read gives a positive count. The body runs once at least. Every positive
  read takes a datagram off the socket's queue, which is what ends the loop.\<close>

function ldx_can_process_tx_socket :: "can_if \<Rightarrow> kernel \<Rightarrow> int \<times> can_if \<times> kernel \<times> cb_call list" where
  "ldx_can_process_tx_socket cif k =
     (case ldx_can_read_tx_socket_i cif evt_zero k of (ret, evt, cif', k') \<Rightarrow>
        if ret > 0 then
          (case ldx_can_process_tx_socket cif' k' of (ret', cif'', k'', calls) \<Rightarrow>
             (ret', cif'', k'', ldx_can_dispatch_evt cif' evt @ calls))
        else (ret, cif', k', ldx_can_dispatch_evt cif' evt))"
  by pat_completeness auto
termination
proof (relation "measure (\<lambda>(cif, k). length (sock_queue k (tx_skt (pdata cif))))")
  show "wf (measure (\<lambda>(cif, k). length (sock_queue k (tx_skt (pdata cif)))))" by simp
next
  fix cif k ret y evt z cif' k'
  assume "(ret, y) = ldx_can_read_tx_socket_i cif evt_zero k" "(evt, z) = y"
    "(cif', k') = z" and pos: "0 < ret"
  then have r: "ldx_can_read_tx_socket_i cif evt_zero k = (ret, evt, cif', k')" by (metis)
  show "((cif', k'), (cif, k)) \<in> measure (\<lambda>(cif, k). length (sock_queue k (tx_skt (pdata cif))))"
  proof (cases "sock_queue k (tx_skt (pdata cif))")
    case Nil
    with r pos show ?thesis
      by (auto simp: ldx_can_read_tx_socket_i_def recvmsg_def Let_def EXIT_SUCCESS_def
          CAN_ERROR_NETWORK_DOWN_def ldx_can_io_set_evt_ptr_def ldx_can_io_clear_evt_ptr_def
          split: if_splits)
  next
    case (Cons m ms)
    with r pos show ?thesis
      by (auto simp: ldx_can_read_tx_socket_i_def recvmsg_def Let_def EXIT_SUCCESS_def
          CAN_ERROR_NETWORK_DOWN_def ldx_can_io_set_evt_ptr_def ldx_can_io_clear_evt_ptr_def
          split: if_splits)
  qed
qed

function ldx_can_process_rx_socket ::
  "can_if \<Rightarrow> can_cb \<Rightarrow> kernel \<Rightarrow> int \<times> can_if \<times> kernel \<times> cb_call list" where
  "ldx_can_process_rx_socket cif rx_cb k =
     (case ldx_can_read_rx_socket_i cif (can_cb.rx_skt rx_cb) evt_zero k of (ret, evt, cif', k') \<Rightarrow>
        if ret > 0 then
          (case ldx_can_process_rx_socket cif' rx_cb k' of (ret', cif'', k'', calls) \<Rightarrow>
             (ret', cif'', k'', ldx_can_dispatch_evt cif' evt @ calls))
        else (ret, cif', k', ldx_can_dispatch_evt cif' evt))"
  by pat_completeness auto
termination
proof (relation "measure (\<lambda>(cif, rx_cb, k). length (sock_queue k (can_cb.rx_skt rx_cb)))")
  show "wf (measure (\<lambda>(cif, rx_cb, k). length (sock_queue k (can_cb.rx_skt rx_cb))))" by simp
next
  fix cif and rx_cb :: can_cb and k ret y evt z cif' k'
  assume "(ret, y) = ldx_can_read_rx_socket_i cif (can_cb.rx_skt rx_cb) evt_zero k"
    "(evt, z) = y" "(cif', k') = z" and pos: "0 < ret"
  then have r: "ldx_can_read_rx_socket_i cif (can_cb.rx_skt rx_cb) evt_zero k = (ret, evt, cif', k')"
    by (metis)
  show "((cif', rx_cb, k'), (cif, rx_cb, k))
        \<in> measure (\<lambda>(cif, rx_cb, k). length (sock_queue k (can_cb.rx_skt rx_cb)))"
  proof (cases "sock_queue k (can_cb.rx_skt rx_cb)")
    case Nil
    with r pos show ?thesis
      by (auto simp: ldx_can_read_rx_socket_i_def recvmsg_def Let_def EXIT_SUCCESS_def
          CAN_ERROR_NETWORK_DOWN_def split: if_splits)
  next
    case (Cons m ms)
    with r pos show ?thesis
      by (auto simp: ldx_can_read_rx_socket_i_def recvmsg_def Let_def EXIT_SUCCESS_def
          CAN_ERROR_NETWORK_DOWN_def split: if_splits)
  qed
qed

text \<open>The two loops are unfolded by hand, one round at a time.\<close>

declare ldx_can_process_tx_socket.simps [simp del]
declare ldx_can_process_rx_socket.simps [simp del]

section \<open>Polling\<close>

text \<open>The loop of \<^verbatim>\<open>ldx_can_poll\<close> over the receive callbacks: every entry whose socket is
  in the descriptor set is drained; \<open>ret\<close> is the C variable the loop overwrites.\<close>

fun poll_rx_sockets ::
  "can_cb list \<Rightarrow> int set \<Rightarrow> int \<Rightarrow> can_if \<Rightarrow> kernel \<Rightarrow> int \<times> can_if \<times> kernel \<times> cb_call list" where
  "poll_rx_sockets [] fds ret cif k = (ret, cif, k, [])"
| "poll_rx_sockets (rx_cb # rest) fds ret cif k =
     (if can_cb.rx_skt rx_cb \<in> fds then
        (case ldx_can_process_rx_socket cif rx_cb k of (ret', cif', k', calls) \<Rightarrow>
           (case poll_rx_sockets rest fds ret' cif' k' of (ret'', cif'', k'', calls') \<Rightarrow>
              (ret'', cif'', k'', calls @ calls')))
      else poll_rx_sockets rest fds ret cif k)"

text \<open>\<^verbatim>\<open>ldx_can_poll\<close>. The result of \<^verbatim>\<open>ldx_can_lock_mutex\<close> is not looked at by the C code,
  so it is no argument here; the timeout is an argument of \<^verbatim>\<open>select\<close> only. In both poll
  variants \<^verbatim>\<open>errno\<close> is read after the logging call; it is taken to be still what \<^verbatim>\<open>select\<close>
  set (a value \<^verbatim>\<open>errno\<close> is set to by a failed call is positive).\<close>

definition ldx_can_poll ::
  "can_if \<Rightarrow> select_result \<Rightarrow> kernel \<Rightarrow> int \<times> can_if \<times> kernel \<times> cb_call list" where
  "ldx_can_poll cif sel k =
     (if sel_ret sel < 0 \<and> sel_errno sel \<noteq> EINTR then
        (sel_ret sel, cif, k, ldx_can_call_err_cb cif (sel_errno sel))
      else if sel_ret sel > 0 then
        (case poll_rx_sockets (rx_cb_list_head (pdata cif)) (sel_fds sel) (sel_ret sel) cif k of
           (ret1, cif1, k1, calls1) \<Rightarrow>
             if tx_skt (pdata cif1) \<in> sel_fds sel then
               (case ldx_can_process_tx_socket cif1 k1 of (ret2, cif2, k2, calls2) \<Rightarrow>
                  (0, cif2, k2, calls1 @ calls2))
             else (0, cif1, k1, calls1))
      else (sel_ret sel, cif, k, []))"

text \<open>\<^verbatim>\<open>ldx_can_poll_one_read_i\<close>: the first receive entry whose socket is ready is read,
  else the transmit socket if it is ready.\<close>

definition ldx_can_poll_one_read_i ::
  "can_if \<Rightarrow> int set \<Rightarrow> ldx_can_event \<Rightarrow> kernel \<Rightarrow> int \<times> ldx_can_event \<times> can_if \<times> kernel" where
  "ldx_can_poll_one_read_i cif fds evt k =
     (case find (\<lambda>rx_cb. can_cb.rx_skt rx_cb \<in> fds) (rx_cb_list_head (pdata cif)) of
        Some rx_cb \<Rightarrow> ldx_can_read_rx_socket_i cif (can_cb.rx_skt rx_cb) evt k
      | None \<Rightarrow>
          if tx_skt (pdata cif) \<in> fds then ldx_can_read_tx_socket_i cif evt k
          else (0, evt, cif, k))"

definition ldx_can_poll_one ::
  "can_if \<Rightarrow> select_result \<Rightarrow> ldx_can_event \<Rightarrow> kernel \<Rightarrow> int \<times> ldx_can_event \<times> can_if \<times> kernel" where
  "ldx_can_poll_one cif sel evt k =
     (let cif1 = ldx_can_io_set_evt_ptr cif in
      if sel_ret sel < 0 \<and> sel_errno sel \<noteq> EINTR then
        (sel_errno sel, evt, cif1, k)
      else if sel_ret sel > 0 then
        (case ldx_can_poll_one_read_i cif1 (sel_fds sel) evt k of (r, evt', cif2, k') \<Rightarrow>
           ((if r < 1 then r else sel_ret sel), evt', ldx_can_io_clear_evt_ptr cif2, k'))
      else (sel_ret sel, evt, ldx_can_io_clear_evt_ptr cif1, k))"

section \<open>Transmit path\<close>

text \<open>What \<^verbatim>\<open>write\<close> gives: its return value and \<^verbatim>\<open>errno\<close>.\<close>

record write_result =
  w_ret :: int
  w_errno :: int

text \<open>\<^verbatim>\<open>ldx_can_tx_frame\<close>: the return value and the frame as the function leaves it.\<close>

definition ldx_can_tx_frame :: "can_if option \<Rightarrow> canfd_frame \<Rightarrow> write_result \<Rightarrow> int \<times> canfd_frame" where
  "ldx_can_tx_frame cifp fr w =
     (case cifp of
        None \<Rightarrow> (- CAN_ERROR_NULL_INTERFACE, fr)
      | Some cif \<Rightarrow>
          let fr' = (if canfd_enabled (cfg cif)
                     then fr\<lparr>len := can_dlc2len (CAN_LEN2DLC (len fr))\<rparr> else fr);
              mtu = (if canfd_enabled (cfg cif) then CANFD_MTU else CAN_MTU);
              ret = w_ret w
          in if ret = - 1 then
               (if w_errno w = ENOBUFS \<or> w_errno w = EAGAIN
                then (- CAN_ERROR_TX_RETRY_LATER, fr')
                else (EXIT_SUCCESS, fr'))
             else if ret < 0 then (- CAN_ERROR_TX_SKT_WR, fr')
             else if ret < mtu then (- CAN_ERROR_INCOMP_FRAME, fr')
             else (EXIT_SUCCESS, fr'))"

section \<open>Callback registry\<close>

definition find_errcb_by_function :: "can_if \<Rightarrow> fnptr option \<Rightarrow> can_err_cb option" where
  "find_errcb_by_function cif cb =
     find (\<lambda>err_cb. can_err_cb.handler err_cb = cb) (err_cb_list_head (pdata cif))"

definition find_rxcb_by_function :: "can_if \<Rightarrow> fnptr option \<Rightarrow> can_cb option" where
  "find_rxcb_by_function cif cb =
     find (\<lambda>rx_cb. can_cb.handler rx_cb = cb) (rx_cb_list_head (pdata cif))"

definition find_rxcb_by_fd :: "can_if \<Rightarrow> int \<Rightarrow> can_cb option" where
  "find_rxcb_by_fd cif fd =
     find (\<lambda>rx_cb. can_cb.rx_skt rx_cb = fd) (rx_cb_list_head (pdata cif))"

text \<open>\<^verbatim>\<open>list_del\<close> of the entry a \<open>find\<close> gave: the first entry that satisfies the test.\<close>

fun list_del_first :: "('a \<Rightarrow> bool) \<Rightarrow> 'a list \<Rightarrow> 'a list" where
  "list_del_first P [] = []"
| "list_del_first P (x # xs) = (if P x then xs else x # list_del_first P xs)"

text \<open>\<open>malloc_ok\<close> tells whether \<^verbatim>\<open>malloc\<close> gave memory.\<close>

definition ldx_can_register_error_handler ::
  "can_if option \<Rightarrow> fnptr option \<Rightarrow> int \<Rightarrow> bool \<Rightarrow> int \<times> can_if option" where
  "ldx_can_register_error_handler cifp cb lock_ret malloc_ok =
     (case cifp of
        None \<Rightarrow> (- CAN_ERROR_NULL_INTERFACE, None)
      | Some cif \<Rightarrow>
          let ret = ldx_can_lock_mutex cif lock_ret in
          if ret \<noteq> 0 then (ret, Some cif)
          else if find_errcb_by_function cif cb \<noteq> None then (- CAN_ERROR_ERR_CB_ALR_REG, Some cif)
          else if \<not> malloc_ok then (- CAN_ERROR_NO_MEM, Some cif)
          else (ret, Some (cif\<lparr>pdata := (pdata cif)
                 \<lparr>err_cb_list_head := \<lparr>can_err_cb.handler = cb\<rparr> # err_cb_list_head (pdata cif)\<rparr>\<rparr>)))"

definition ldx_can_unregister_error_handler ::
  "can_if option \<Rightarrow> fnptr option \<Rightarrow> int \<Rightarrow> int \<times> can_if option" where
  "ldx_can_unregister_error_handler cifp cb lock_ret =
     (case cifp of
        None \<Rightarrow> (- CAN_ERROR_NULL_INTERFACE, None)
      | Some cif \<Rightarrow>
          let ret = ldx_can_lock_mutex cif lock_ret in
          if ret \<noteq> 0 then (ret, Some cif)
          else if find_errcb_by_function cif cb = None then (- CAN_ERROR_ERR_CB_NOT_FOUND, Some cif)
          else (ret, Some (cif\<lparr>pdata := (pdata cif)
                 \<lparr>err_cb_list_head :=
                    list_del_first (\<lambda>err_cb. can_err_cb.handler err_cb = cb)
                      (err_cb_list_head (pdata cif))\<rparr>\<rparr>)))"

section \<open>Receive sockets\<close>

text \<open>What the system calls of \<^verbatim>\<open>ldx_can_init_rx_socket\<close> return, in call order;
  \<open>rcvbuf_rd\<close> is the size \<^verbatim>\<open>getsockopt(SO_RCVBUF)\<close> stores.\<close>

record rx_skt_env =
  rx_fcntl_ret :: int
  rx_setsockopt_tstamp_ret :: int
  rx_setsockopt_canfd_ret :: int
  setsockopt_rcvbufforce_ret :: int
  setsockopt_rcvbuf_ret :: int
  getsockopt_rcvbuf_ret :: int
  rcvbuf_rd :: int
  rx_setsockopt_err_filter_ret :: int
  rx_setsockopt_raw_filter_ret :: int
  rx_bind_ret :: int

text \<open>A \<^verbatim>\<open>struct can_filter\<close> is an identifier and a mask; the array pointer may be \<^verbatim>\<open>NULL\<close>.\<close>
type_synonym can_filters = "(u32 \<times> u32) list option"

text \<open>The buffer-size step of \<^verbatim>\<open>ldx_can_init_rx_socket\<close>: \<open>Some ret\<close> is a \<^verbatim>\<open>return ret\<close>,
  \<open>None\<close> goes on.\<close>

definition rx_socket_rcvbuf :: "can_if \<Rightarrow> rx_skt_env \<Rightarrow> int option \<times> can_if" where
  "rx_socket_rcvbuf cif env =
     (if rx_buf_len (cfg cif) \<noteq> 0 then
        (if setsockopt_rcvbufforce_ret env < 0 \<and> setsockopt_rcvbuf_ret env < 0
         then (Some (- CAN_ERROR_SETSKTOPT_RCVBUF), cif)
         else if getsockopt_rcvbuf_ret env < 0 then (Some (- CAN_ERROR_GETSKTOPT_RCVBUF), cif)
         else (None, cif\<lparr>cfg := (cfg cif)\<lparr>rx_buf_len_rd := rcvbuf_rd env\<rparr>\<rparr>))
      else (None, cif))"

definition ldx_can_init_rx_socket ::
  "can_if \<Rightarrow> int \<Rightarrow> can_filters \<Rightarrow> int \<Rightarrow> rx_skt_env \<Rightarrow> int \<times> can_if" where
  "ldx_can_init_rx_socket cif skt filters nfilters env =
     (if rx_fcntl_ret env \<noteq> 0 then (rx_fcntl_ret env, cif)
      else if process_header (cfg cif) \<and> rx_setsockopt_tstamp_ret env \<noteq> 0
        then (- CAN_ERROR_SETSKTOPT_TIMESTAMP, cif)
      else if canfd_enabled (cfg cif) \<and> rx_setsockopt_canfd_ret env < 0
        then (- CAN_ERROR_SETSKTOPT_CANFD, cif)
      else
        (case rx_socket_rcvbuf cif env of
           (Some ret, cif1) \<Rightarrow> (ret, cif1)
         | (None, cif1) \<Rightarrow>
             if error_mask (cfg cif1) \<noteq> 0 \<and> rx_setsockopt_err_filter_ret env < 0
               then (- CAN_ERROR_SETSKTOPT_ERR_FLT, cif1)
             else if nfilters > 0 \<and> filters \<noteq> None \<and> rx_setsockopt_raw_filter_ret env \<noteq> 0
               then (- CAN_ERROR_SETSKTOPT_RAW_FLT, cif1)
             else if rx_bind_ret env < 0 then (- CAN_ERROR_RX_SKT_BIND, cif1)
             else
               (rx_bind_ret env,
                cif1\<lparr>pdata := (pdata cif1)
                  \<lparr>can_fds := insert skt (can_fds (pdata cif1)),
                   maxfd := (if skt > maxfd (pdata cif1) then skt else maxfd (pdata cif1))\<rparr>\<rparr>)))"

text \<open>\<open>socket_ret\<close> is what \<^verbatim>\<open>socket()\<close> returns.\<close>

definition ldx_can_open_rx_socket_impl ::
  "can_if \<Rightarrow> can_filters \<Rightarrow> int \<Rightarrow> int \<Rightarrow> rx_skt_env \<Rightarrow> kernel \<Rightarrow> int \<times> can_if \<times> kernel" where
  "ldx_can_open_rx_socket_impl cif filters nfilters socket_ret env k =
     (if socket_ret < 0 then (- CAN_ERROR_RX_SKT_CREATE, cif, k)
      else
        (case ldx_can_init_rx_socket cif socket_ret filters nfilters env of (ret, cif') \<Rightarrow>
           if ret = 0 then (socket_ret, cif', socket_fd k socket_ret)
           else (ret, cif', close_fd (socket_fd k socket_ret) socket_ret)))"

definition ldx_can_open_rx_socket ::
  "can_if option \<Rightarrow> can_filters \<Rightarrow> int \<Rightarrow> int \<Rightarrow> int \<Rightarrow> rx_skt_env \<Rightarrow> kernel
     \<Rightarrow> int \<times> can_if option \<times> kernel" where
  "ldx_can_open_rx_socket cifp filters nfilters lock_ret socket_ret env k =
     (case cifp of
        None \<Rightarrow> (- CAN_ERROR_NULL_INTERFACE, None, k)
      | Some cif \<Rightarrow>
          if ldx_can_lock_mutex cif lock_ret = 0 then
            (case ldx_can_open_rx_socket_impl cif filters nfilters socket_ret env k of
               (ret, cif', k') \<Rightarrow> (ret, Some cif', k'))
          else (ldx_can_lock_mutex cif lock_ret, Some cif, k))"

definition ldx_can_close_rx_socket_impl :: "can_if \<Rightarrow> int \<Rightarrow> kernel \<Rightarrow> can_if \<times> kernel" where
  "ldx_can_close_rx_socket_impl cif skt k =
     (let rxcb = find_rxcb_by_fd cif skt;
          pd = (pdata cif)\<lparr>can_fds := can_fds (pdata cif) - {skt}\<rparr>;
          pd' = (if rxcb \<noteq> None
                 then pd\<lparr>rx_cb_list_head :=
                        list_del_first (\<lambda>rx_cb. can_cb.rx_skt rx_cb = skt) (rx_cb_list_head pd)\<rparr>
                 else pd)
      in (cif\<lparr>pdata := pd'\<rparr>, close_fd k skt))"

definition ldx_can_close_rx_socket ::
  "can_if option \<Rightarrow> int \<Rightarrow> int \<Rightarrow> kernel \<Rightarrow> int \<times> can_if option \<times> kernel" where
  "ldx_can_close_rx_socket cifp skt lock_ret k =
     (case cifp of
        None \<Rightarrow> (- CAN_ERROR_NULL_INTERFACE, None, k)
      | Some cif \<Rightarrow>
          if ldx_can_lock_mutex cif lock_ret = 0 then
            (case ldx_can_close_rx_socket_impl cif skt k of (cif', k') \<Rightarrow> (0, Some cif', k'))
          else (ldx_can_lock_mutex cif lock_ret, Some cif, k))"

definition ldx_can_register_rx_handler_impl ::
  "can_if \<Rightarrow> fnptr option \<Rightarrow> can_filters \<Rightarrow> int \<Rightarrow> bool \<Rightarrow> int \<Rightarrow> rx_skt_env \<Rightarrow> kernel
     \<Rightarrow> int \<times> can_if \<times> kernel" where
  "ldx_can_register_rx_handler_impl cif cb filters nfilters malloc_ok socket_ret env k =
     (if find_rxcb_by_function cif cb \<noteq> None then (- CAN_ERROR_RX_CB_ALR_REG, cif, k)
      else if \<not> malloc_ok then (- CAN_ERROR_NO_MEM, cif, k)
      else
        (case ldx_can_open_rx_socket_impl cif filters nfilters socket_ret env k of
           (ret, cif', k') \<Rightarrow>
             if ret < 0 then (ret, cif', k')
             else
               (CAN_ERROR_NONE,
                cif'\<lparr>pdata := (pdata cif')
                  \<lparr>rx_cb_list_head :=
                     \<lparr>can_cb.rx_skt = ret, can_cb.handler = cb\<rparr> # rx_cb_list_head (pdata cif')\<rparr>\<rparr>,
                k')))"

definition ldx_can_register_rx_handler ::
  "can_if option \<Rightarrow> fnptr option \<Rightarrow> can_filters \<Rightarrow> int \<Rightarrow> int \<Rightarrow> bool \<Rightarrow> int \<Rightarrow> rx_skt_env
     \<Rightarrow> kernel \<Rightarrow> int \<times> can_if option \<times> kernel" where
  "ldx_can_register_rx_handler cifp cb filters nfilters lock_ret malloc_ok socket_ret env k =
     (case cifp of
        None \<Rightarrow> (- CAN_ERROR_NULL_INTERFACE, None, k)
      | Some cif \<Rightarrow>
          if ldx_can_lock_mutex cif lock_ret \<noteq> 0 then (ldx_can_lock_mutex cif lock_ret, Some cif, k)
          else
            (case ldx_can_register_rx_handler_impl cif cb filters nfilters malloc_ok socket_ret env k
             of (ret, cif', k') \<Rightarrow> (ret, Some cif', k')))"

definition ldx_can_unregister_rx_handler ::
  "can_if option \<Rightarrow> fnptr option \<Rightarrow> int \<Rightarrow> kernel \<Rightarrow> int \<times> can_if option \<times> kernel" where
  "ldx_can_unregister_rx_handler cifp cb lock_ret k =
     (case cifp of
        None \<Rightarrow> (- CAN_ERROR_NULL_INTERFACE, None, k)
      | Some cif \<Rightarrow>
          if ldx_can_lock_mutex cif lock_ret = 0 then
            (case find_rxcb_by_function cif cb of
               None \<Rightarrow> (- CAN_ERROR_RX_CB_NOT_FOUND, Some cif, k)
             | Some rxcb \<Rightarrow>
                 (case ldx_can_close_rx_socket_impl cif (can_cb.rx_skt rxcb) k of
                    (cif', k') \<Rightarrow> (0, Some cif', k')))
          else (ldx_can_lock_mutex cif lock_ret, Some cif, k))"

section \<open>Interface initialisation\<close>

definition AF_CAN :: int where "AF_CAN = 29"
definition IFNAMSIZ :: nat where "IFNAMSIZ = 16"

text \<open>The address of the static function \<^verbatim>\<open>ldx_can_default_error_handler\<close>: some non-null
  pointer.\<close>
definition ldx_can_default_error_handler :: fnptr where
  "ldx_can_default_error_handler = 1"

text \<open>What the collaborators and system calls of \<^verbatim>\<open>ldx_can_init\<close> return, in call order. The
  first six are the link-configuration functions (\<^verbatim>\<open>ldx_can_set_bitrate\<close>, ...,
  \<^verbatim>\<open>ldx_can_start\<close>), which are not in \<^verbatim>\<open>can.c\<close>; \<open>set_restart_ms_bt_ret\<close> is the second call of
  \<^verbatim>\<open>ldx_can_set_restart_ms\<close>, made under the bit-timing test. \<open>ioctl_mtu\<close> is the MTU that
  \<^verbatim>\<open>ioctl(SIOCGIFMTU)\<close> stores, \<open>sndbuf_rd\<close> the size \<^verbatim>\<open>getsockopt(SO_SNDBUF)\<close> stores.\<close>

record init_env =
  set_bitrate_ret :: int
  set_data_bitrate_ret :: int
  set_restart_ms_ret :: int
  set_restart_ms_bt_ret :: int
  set_ctrlmode_ret :: int
  start_ret :: int
  tx_socket_ret :: int
  if_nametoindex_ret :: int
  tx_fcntl_ret :: int
  ioctl_mtu_ret :: int
  ioctl_mtu :: int
  tx_setsockopt_canfd_ret :: int
  tx_setsockopt_raw_filter_ret :: int
  setsockopt_sndbufforce_ret :: int
  setsockopt_sndbuf_ret :: int
  getsockopt_sndbuf_ret :: int
  sndbuf_rd :: int
  tx_setsockopt_err_filter_ret :: int
  tx_bind_ret :: int
  reg_lock_ret :: int
  reg_malloc_ok :: bool
  thr_malloc_ok :: bool
  mutex_init_ret :: int
  pthread_create_ret :: int

text \<open>The steps of \<^verbatim>\<open>ldx_can_init\<close> between the creation of the transmit socket and the
  label \<^verbatim>\<open>err_skt_close\<close> are given one definition each. A step returns \<open>Some ret\<close> where the
  C code sets \<^verbatim>\<open>ret\<close> and jumps to \<^verbatim>\<open>err_skt_close\<close> (or \<^verbatim>\<open>err_thr_alloc\<close>, which falls
  through to it), and \<open>None\<close> where it goes on.\<close>

text \<open>Interface index, address and non-blocking mode.\<close>

definition init_tx_ifindex :: "can_if \<Rightarrow> init_env \<Rightarrow> int option \<times> can_if" where
  "init_tx_ifindex cif env =
     (let cif1 = cif\<lparr>pdata := (pdata cif)
                   \<lparr>ifr_name := take (IFNAMSIZ - 1) (name cif), ifr_ifru := if_nametoindex_ret env\<rparr>\<rparr>
      in if ifr_ifru (pdata cif1) = 0 then (Some (- CAN_ERROR_IFR_IDX), cif1)
         else
           let cif2 = cif1\<lparr>pdata := (pdata cif1)
                        \<lparr>addr_can_family := AF_CAN, addr_can_ifindex := ifr_ifru (pdata cif1)\<rparr>\<rparr>
           in if tx_fcntl_ret env \<noteq> 0 then (Some (tx_fcntl_ret env), cif2) else (None, cif2))"

text \<open>The block under \<^verbatim>\<open>if (cif->cfg.canfd_enabled)\<close>.\<close>

definition init_tx_canfd :: "can_if \<Rightarrow> init_env \<Rightarrow> int option \<times> can_if" where
  "init_tx_canfd cif env =
     (if canfd_enabled (cfg cif) then
        (if ioctl_mtu_ret env < 0 then (Some (- CAN_ERROR_SIOCGIFMTU), cif)
         else
           let cif1 = cif\<lparr>pdata := (pdata cif)\<lparr>ifr_ifru := ioctl_mtu env\<rparr>\<rparr>
           in if ifr_ifru (pdata cif1) \<noteq> CANFD_MTU then (Some CAN_ERROR_NOT_CANFD, cif1)
              else if tx_setsockopt_canfd_ret env < 0 then (Some (- CAN_ERROR_SETSKTOPT_CANFD), cif1)
              else (None, cif1))
      else (None, cif))"

text \<open>Receive filter off, send-buffer size, error mask, bind.\<close>

definition init_tx_options :: "can_if \<Rightarrow> init_env \<Rightarrow> int option \<times> can_if" where
  "init_tx_options cif env =
     (if tx_setsockopt_raw_filter_ret env < 0 then (Some (- CAN_ERROR_SETSKTOPT_RAW_FLT), cif)
      else if tx_buf_len (cfg cif) \<noteq> 0 \<and> setsockopt_sndbufforce_ret env < 0
              \<and> setsockopt_sndbuf_ret env < 0
        then (Some (- CAN_ERROR_SETSKTOPT_SNDBUF), cif)
      else if tx_buf_len (cfg cif) \<noteq> 0 \<and> getsockopt_sndbuf_ret env < 0
        then (Some (- CAN_ERROR_GETSKTOPT_SNDBUF), cif)
      else
        let cif1 = (if tx_buf_len (cfg cif) \<noteq> 0
                    then cif\<lparr>cfg := (cfg cif)\<lparr>tx_buf_len_rd := sndbuf_rd env\<rparr>\<rparr> else cif)
        in if error_mask (cfg cif1) \<noteq> 0 \<and> tx_setsockopt_err_filter_ret env < 0
             then (Some (- CAN_ERROR_SETSKTOPT_ERR_FLT), cif1)
           else if tx_bind_ret env < 0 then (Some (- CAN_ERROR_TX_SKT_BIND), cif1)
           else (None, cif1))"

text \<open>\<^verbatim>\<open>FD_ZERO\<close>, \<^verbatim>\<open>FD_SET\<close>, \<^verbatim>\<open>maxfd\<close>, and the default error handler.\<close>

definition init_tx_fds :: "can_if \<Rightarrow> init_env \<Rightarrow> int option \<times> can_if" where
  "init_tx_fds cif env =
     (let cif1 = cif\<lparr>pdata := (pdata cif)
                   \<lparr>can_fds := {tx_skt (pdata cif)}, maxfd := tx_skt (pdata cif)\<rparr>\<rparr>
      in case ldx_can_register_error_handler (Some cif1) (Some ldx_can_default_error_handler)
                (reg_lock_ret env) (reg_malloc_ok env) of
           (ret, cifp) \<Rightarrow>
             let cif2 = (case cifp of None \<Rightarrow> cif1 | Some c \<Rightarrow> c)
             in if ret < 0 then (Some (- CAN_ERROR_REG_ERR_HDLR), cif2) else (None, cif2))"

text \<open>The worker thread and its mutex. \<^verbatim>\<open>free(pdata->can_thr)\<close> leaves the pointer non-null.\<close>

definition init_thread :: "can_if \<Rightarrow> can_if_cfg \<Rightarrow> init_env \<Rightarrow> int option \<times> can_if" where
  "init_thread cif c env =
     (let cif1 = cif\<lparr>pdata := (pdata cif)\<lparr>has_mutex := False\<rparr>\<rparr>
      in if \<not> polled_mode c \<and> \<not> can_thr (pdata cif1) then
           (if \<not> thr_malloc_ok env then (Some (- CAN_ERROR_THREAD_ALLOC), cif1)
            else
              let cif2 = cif1\<lparr>pdata := (pdata cif1)\<lparr>can_thr := True\<rparr>\<rparr>
              in if mutex_init_ret env \<noteq> 0 then (Some (- CAN_ERROR_THREAD_MUTEX_INIT), cif2)
                 else
                   let cif3 = cif2\<lparr>pdata := (pdata cif2)\<lparr>has_mutex := True\<rparr>\<rparr>
                   in if pthread_create_ret env \<noteq> 0 then (Some (- CAN_ERROR_THREAD_CREATE), cif3)
                      else (None, cif3))
         else (None, cif1))"

text \<open>From \<^verbatim>\<open>socket()\<close> to the end of \<^verbatim>\<open>ldx_can_init\<close>: the steps in order; the first
  \<open>Some ret\<close> closes the transmit socket and returns \<open>ret\<close>.\<close>

definition init_tx_socket :: "can_if \<Rightarrow> can_if_cfg \<Rightarrow> init_env \<Rightarrow> kernel \<Rightarrow> int \<times> can_if \<times> kernel" where
  "init_tx_socket cif c env k =
     (let cif0 = cif\<lparr>pdata := (pdata cif)\<lparr>tx_skt := tx_socket_ret env\<rparr>\<rparr>;
          k0 = socket_fd k (tx_socket_ret env)
      in if tx_skt (pdata cif0) < 0 then (- CAN_ERROR_TX_SKT_CREATE, cif0, k0)
         else
           (case init_tx_ifindex cif0 env of
              (Some ret, cif1) \<Rightarrow> (ret, cif1, close_fd k0 (tx_skt (pdata cif1)))
            | (None, cif1) \<Rightarrow>
           (case init_tx_canfd cif1 env of
              (Some ret, cif2) \<Rightarrow> (ret, cif2, close_fd k0 (tx_skt (pdata cif2)))
            | (None, cif2) \<Rightarrow>
           (case init_tx_options cif2 env of
              (Some ret, cif3) \<Rightarrow> (ret, cif3, close_fd k0 (tx_skt (pdata cif3)))
            | (None, cif3) \<Rightarrow>
           (case init_tx_fds cif3 env of
              (Some ret, cif4) \<Rightarrow> (ret, cif4, close_fd k0 (tx_skt (pdata cif4)))
            | (None, cif4) \<Rightarrow>
           (case init_thread cif4 c env of
              (Some ret, cif5) \<Rightarrow> (ret, cif5, close_fd k0 (tx_skt (pdata cif5)))
            | (None, cif5) \<Rightarrow> (CAN_ERROR_NONE, cif5, k0)))))))"

text \<open>\<^verbatim>\<open>ldx_can_init\<close>. After \<^verbatim>\<open>cif->cfg = *cfg\<close> the assignments that follow a successful
  setting (\<^verbatim>\<open>cif->cfg.bitrate = cfg->bitrate\<close> and the like) store what is already there.\<close>

definition ldx_can_init ::
  "can_h_macros \<Rightarrow> can_if option \<Rightarrow> can_if_cfg \<Rightarrow> init_env \<Rightarrow> kernel \<Rightarrow> int \<times> can_if option \<times> kernel" where
  "ldx_can_init h cifp c env k =
     (case cifp of
        None \<Rightarrow> (- CAN_ERROR_NULL_INTERFACE, None, k)
      | Some cif0 \<Rightarrow>
          let cif = cif0\<lparr>cfg := c\<rparr> in
          if bitrate c \<noteq> LDX_CAN_INVALID_BITRATE h \<and> set_bitrate_ret env \<noteq> 0
            then (set_bitrate_ret env, Some cif, k)
          else if dbitrate c \<noteq> LDX_CAN_INVALID_BITRATE h \<and> set_data_bitrate_ret env \<noteq> 0
            then (set_data_bitrate_ret env, Some cif, k)
          else if restart_ms c \<noteq> LDX_CAN_INVALID_RESTART_MS h \<and> set_restart_ms_ret env \<noteq> 0
            then (set_restart_ms_ret env, Some cif, k)
          else if bit_timing_bitrate c \<noteq> 0 \<and> set_restart_ms_bt_ret env \<noteq> 0
            then (set_restart_ms_bt_ret env, Some cif, k)
          else if ctrl_mode_mask c \<noteq> LDX_CAN_UNCONFIGURED_MASK h \<and> set_ctrlmode_ret env \<noteq> 0
            then (set_ctrlmode_ret env, Some cif, k)
          else if start_ret env \<noteq> 0 then (start_ret env, Some cif, k)
          else
            (case init_tx_socket cif c env k of (ret, cif', k') \<Rightarrow> (ret, Some cif', k')))"

section \<open>Requesting a handle\<close>

text \<open>\<^verbatim>\<open>ldx_can_request_by_name\<close>: \<^verbatim>\<open>calloc\<close> zeroes both structures; the two flags tell
  whether the two \<^verbatim>\<open>calloc\<close> calls gave memory.\<close>

definition cfg_zero :: can_if_cfg where
  "cfg_zero = \<lparr>nl_cmd_verify = False, canfd_enabled = False, process_header = False,
     hw_timestamp = False, bitrate = 0, dbitrate = 0, restart_ms = 0, ctrl_mode_mask = 0,
     ctrl_mode_flags = 0, bit_timing_bitrate = 0, error_mask = 0, polled_mode = False,
     tx_buf_len = 0, tx_buf_len_rd = 0, rx_buf_len = 0, rx_buf_len_rd = 0\<rparr>"

definition cif_calloc :: "can_h_macros \<Rightarrow> string \<Rightarrow> can_if" where
  "cif_calloc h if_name =
     \<lparr>name = take (IFNAMSIZ - 1) if_name, cfg = cfg_zero, can_if.dropped_frames = 0,
      pdata = \<lparr>tx_skt = 0, can_fds = {}, maxfd = 0, rx_cb_list_head = [],
        err_cb_list_head = [], has_mutex = False, can_thr = False, run_thr = True,
        can_tout = \<lparr>timeval.tv_sec = LDX_CAN_DEF_TOUT_SEC h, tv_usec = LDX_CAN_DEF_TOUT_USEC h\<rparr>,
        ifr_name = [], ifr_ifru = 0, addr_can_family = 0, addr_can_ifindex = 0,
        iov_base = False\<rparr>\<rparr>"

definition ldx_can_request_by_name :: "can_h_macros \<Rightarrow> string \<Rightarrow> bool \<Rightarrow> bool \<Rightarrow> can_if option" where
  "ldx_can_request_by_name h if_name cif_ok priv_ok =
     (if \<not> cif_ok then None
      else if \<not> priv_ok then None
      else Some (cif_calloc h if_name))"

section \<open>The wait-set bound\<close>

text \<open>Every descriptor of the wait-set is at most \<open>maxfd\<close>.\<close>

definition fds_bounded :: "can_priv \<Rightarrow> bool" where
  "fds_bounded pd = (\<forall>fd \<in> can_fds pd. fd \<le> maxfd pd)"

section \<open>Concrete states and inputs\<close>

text \<open>The inputs at which the results below are evaluated. The macro values are arbitrary.\<close>

definition macros_0 :: can_h_macros where
  "macros_0 = \<lparr>LDX_CAN_INVALID_BITRATE = 0, LDX_CAN_INVALID_RESTART_MS = 0,
     LDX_CAN_UNCONFIGURED_MASK = 0, LDX_CAN_DEF_TOUT_SEC = 0, LDX_CAN_DEF_TOUT_USEC = 0\<rparr>"

text \<open>Descriptors 0, 1 and 2 are open and nothing is queued.\<close>

definition kernel_0 :: kernel where
  "kernel_0 = \<lparr>open_fds = {0, 1, 2}, sock_queue = (\<lambda>fd. [])\<rparr>"

text \<open>An interface with transmit socket 3, receive sockets 4 and 5, three receive entries
  (one registered with a null handler) and three error entries (one with a null handler).\<close>

definition cif_callbacks :: can_if where
  "cif_callbacks = (cif_calloc macros_0 ''can0'')
     \<lparr>pdata := (pdata (cif_calloc macros_0 ''can0''))
        \<lparr>tx_skt := 3, can_fds := {3, 4, 5}, maxfd := 5,
         rx_cb_list_head := [\<lparr>can_cb.rx_skt = 5, can_cb.handler = Some 21\<rparr>,
                             \<lparr>can_cb.rx_skt = 4, can_cb.handler = None\<rparr>,
                             \<lparr>can_cb.rx_skt = 4, can_cb.handler = Some 20\<rparr>],
         err_cb_list_head := [\<lparr>can_err_cb.handler = Some 11\<rparr>,
                              \<lparr>can_err_cb.handler = None\<rparr>,
                              \<lparr>can_err_cb.handler = Some 1\<rparr>]\<rparr>\<rparr>"

text \<open>A data frame with identifier 0x123 and four bytes, and an error frame.\<close>

definition frame_0x123 :: canfd_frame where
  "frame_0x123 = \<lparr>can_id = 0x123, len = 4, flags = 0, data = [1, 2, 3, 4]\<rparr>"

definition frame_error :: canfd_frame where
  "frame_error = \<lparr>can_id = 0x20000004, len = 8, flags = 0, data = replicate 8 0\<rparr>"

text \<open>A receive event from socket 4 with two dropped frames; the same event of an error
  frame; and an event with the dropped-frame counter alone.\<close>

definition evt_rx_dropped :: ldx_can_event where
  "evt_rx_dropped = evt_zero\<lparr>frame := frame_0x123, ldx_can_event.dropped_frames := 2,
     is_rx := True, ldx_can_event.rx_skt := 4\<rparr>"

definition evt_error_dropped :: ldx_can_event where
  "evt_error_dropped = evt_zero\<lparr>frame := frame_error, ldx_can_event.dropped_frames := 2,
     is_rx := True, is_error := True, ldx_can_event.rx_skt := 4\<rparr>"

definition evt_only_dropped :: ldx_can_event where
  "evt_only_dropped = evt_zero\<lparr>ldx_can_event.dropped_frames := 2\<rparr>"

text \<open>A kernel in which socket 4 holds the error frame, received with the header option on
  and an overflow count of 2.\<close>

definition kernel_error_frame :: kernel where
  "kernel_error_frame = kernel_0
     \<lparr>sock_queue := (sock_queue kernel_0)
        (4 := [\<lparr>r_nbytes = 16, r_errno = 0, r_frame = frame_error, r_cmsgs = [Cmsg_rxq_ovfl 2]\<rparr>])\<rparr>"

text \<open>A kernel in which socket 4 holds one data frame and then fails with \<^verbatim>\<open>ENETDOWN\<close>, and
  a \<^verbatim>\<open>select\<close> that reports socket 4 ready.\<close>

definition kernel_net_down :: kernel where
  "kernel_net_down = kernel_0
     \<lparr>sock_queue := (sock_queue kernel_0)
        (4 := [\<lparr>r_nbytes = 16, r_errno = 0, r_frame = frame_0x123, r_cmsgs = []\<rparr>,
               \<lparr>r_nbytes = - 1, r_errno = ENETDOWN, r_frame = frame evt_zero, r_cmsgs = []\<rparr>])\<rparr>"

definition select_ready_4 :: select_result where
  "select_ready_4 = \<lparr>sel_ret = 1, sel_errno = 0, sel_fds = {4}\<rparr>"

text \<open>An initialisation in which every call succeeds: \<^verbatim>\<open>socket()\<close> gives descriptor 3, the
  interface index is 2, and the link MTU is that of classic CAN.\<close>

definition init_env_ok :: init_env where
  "init_env_ok = \<lparr>set_bitrate_ret = 0, set_data_bitrate_ret = 0, set_restart_ms_ret = 0,
     set_restart_ms_bt_ret = 0, set_ctrlmode_ret = 0, start_ret = 0, tx_socket_ret = 3,
     if_nametoindex_ret = 2, tx_fcntl_ret = 0, ioctl_mtu_ret = 0, ioctl_mtu = CAN_MTU,
     tx_setsockopt_canfd_ret = 0, tx_setsockopt_raw_filter_ret = 0,
     setsockopt_sndbufforce_ret = 0, setsockopt_sndbuf_ret = 0, getsockopt_sndbuf_ret = 0,
     sndbuf_rd = 0, tx_setsockopt_err_filter_ret = 0, tx_bind_ret = 0, reg_lock_ret = 0,
     reg_malloc_ok = True, thr_malloc_ok = True, mutex_init_ret = 0, pthread_create_ret = 0\<rparr>"

definition rx_skt_env_ok :: rx_skt_env where
  "rx_skt_env_ok = \<lparr>rx_fcntl_ret = 0, rx_setsockopt_tstamp_ret = 0, rx_setsockopt_canfd_ret = 0,
     setsockopt_rcvbufforce_ret = 0, setsockopt_rcvbuf_ret = 0, getsockopt_rcvbuf_ret = 0,
     rcvbuf_rd = 0, rx_setsockopt_err_filter_ret = 0, rx_setsockopt_raw_filter_ret = 0,
     rx_bind_ret = 0\<rparr>"

text \<open>A polled-mode configuration, with and without CAN FD.\<close>

definition cfg_polled :: can_if_cfg where
  "cfg_polled = cfg_zero\<lparr>process_header := True, polled_mode := True\<rparr>"

definition cfg_polled_canfd :: can_if_cfg where
  "cfg_polled_canfd = cfg_polled\<lparr>canfd_enabled := True\<rparr>"

text \<open>The run: request \<^verbatim>\<open>can0\<close>, initialise it (transmit socket 3), open a receive socket
  (descriptor 4), close it again.\<close>

definition run_init :: "int \<times> can_if option \<times> kernel" where
  "run_init = ldx_can_init macros_0 (ldx_can_request_by_name macros_0 ''can0'' True True)
                cfg_polled init_env_ok kernel_0"

definition run_open :: "int \<times> can_if option \<times> kernel" where
  "run_open = ldx_can_open_rx_socket (fst (snd run_init)) None 0 0 4 rx_skt_env_ok
                (snd (snd run_init))"

definition run_close :: "int \<times> can_if option \<times> kernel" where
  "run_close = ldx_can_close_rx_socket (fst (snd run_open)) 4 0 (snd (snd run_open))"

chapter \<open>Properties\<close>

section \<open>Frame-length codec\<close>

text \<open>Both tables are read inside their bounds.\<close>

lemma can_dlc2len_index: "unat (can_dlc AND (0x0F::u8)) < length dlc2len"
proof -
  have "can_dlc AND 0x0F \<le> (0x0F::u8)" by (rule word_and_le1)
  then have "unat (can_dlc AND 0x0F) \<le> unat (0x0F::u8)" by (simp add: word_le_nat_alt)
  then show ?thesis by (simp add: dlc2len_def)
qed

lemma CAN_LEN2DLC_index: "\<not> n > (64::u8) \<Longrightarrow> unat n < length len2dlc"
  by (simp add: len2dlc_def word_less_nat_alt not_less word_le_nat_alt)

text \<open>The codec on every length from 0 to 64, by evaluation.\<close>

lemma codec_small_all:
  "list_all (\<lambda>n. can_dlc2len (CAN_LEN2DLC (of_nat n)) = (of_nat n :: u8)) [0..<9]"
  by code_simp

lemma codec_large_all:
  "list_all (\<lambda>n. let r = can_dlc2len (CAN_LEN2DLC (of_nat n)) in
       (of_nat n :: u8) \<le> r \<and> r \<in> set [12, 16, 20, 24, 32, 48, 64] \<and>
       list_all (\<lambda>s. (of_nat n :: u8) \<le> s \<longrightarrow> r \<le> s) [12, 16, 20, 24, 32, 48, 64]) [9..<65]"
  by code_simp

text \<open>
  Claim C5. For every byte length \<open>n\<close> with \<open>0 \<le> n \<le> 8\<close>, expanding the normalized length
  code gives \<open>n\<close> back: \<^verbatim>\<open>can_dlc2len(CAN_LEN2DLC(n)) == n\<close>.
\<close>

theorem can_dlc2len_len2dlc_identity:
  assumes "n \<le> (8::u8)"
  shows "can_dlc2len (CAN_LEN2DLC n) = n"
proof -
  from assms have "unat n < 9" by (simp add: word_le_nat_alt)
  then have "unat n \<in> set [0..<9]" unfolding set_upt atLeastLessThan_iff by simp
  with codec_small_all
  have "can_dlc2len (CAN_LEN2DLC (of_nat (unat n))) = (of_nat (unat n) :: u8)"
    unfolding list_all_iff by blast
  then show ?thesis by simp
qed

theorem can_dlc2len_len2dlc_identity_witness:
  "(5::u8) \<le> 8 \<and> can_dlc2len (CAN_LEN2DLC 5) = 5"
  using can_dlc2len_len2dlc_identity [of 5] by simp

text \<open>
  Claim C6. For every byte length \<open>n\<close> with \<open>9 \<le> n \<le> 64\<close>, \<^verbatim>\<open>can_dlc2len(CAN_LEN2DLC(n))\<close> is
  at least \<open>n\<close> and is the smallest element of \<open>{12, 16, 20, 24, 32, 48, 64}\<close> that is
  greater than or equal to \<open>n\<close>.
\<close>

theorem can_dlc2len_len2dlc_round_up:
  assumes "(9::u8) \<le> n" and "n \<le> 64"
  shows "n \<le> can_dlc2len (CAN_LEN2DLC n) \<and>
         can_dlc2len (CAN_LEN2DLC n) \<in> {12, 16, 20, 24, 32, 48, 64} \<and>
         (\<forall>s \<in> {12, 16, 20, 24, 32, 48, 64}. n \<le> s \<longrightarrow> can_dlc2len (CAN_LEN2DLC n) \<le> s)"
proof -
  from assms have "9 \<le> unat n" "unat n < 65" by (simp_all add: word_le_nat_alt)
  then have "unat n \<in> set [9..<65]" unfolding set_upt atLeastLessThan_iff by simp
  with codec_large_all
  have "let r = can_dlc2len (CAN_LEN2DLC (of_nat (unat n))) in
       (of_nat (unat n) :: u8) \<le> r \<and> r \<in> set [12, 16, 20, 24, 32, 48, 64] \<and>
       list_all (\<lambda>s. (of_nat (unat n) :: u8) \<le> s \<longrightarrow> r \<le> s) [12, 16, 20, 24, 32, 48, 64]"
    unfolding list_all_iff by blast
  then show ?thesis by (simp add: Let_def)
qed

theorem can_dlc2len_len2dlc_round_up_witness:
  "(9::u8) \<le> 33 \<and> (33::u8) \<le> 64 \<and> (33::u8) \<le> can_dlc2len (CAN_LEN2DLC 33) \<and>
   can_dlc2len (CAN_LEN2DLC 33) = 48"
  using can_dlc2len_len2dlc_round_up [of 33]
  by (simp add: can_dlc2len_def CAN_LEN2DLC_def dlc2len_def len2dlc_def)

section \<open>Error strings\<close>

lemmas can_error_defs =
  CAN_ERROR_NONE_def CAN_ERROR_NULL_INTERFACE_def CAN_ERROR_IFR_IDX_def CAN_ERROR_NO_MEM_def
  CAN_ERROR_NL_GET_STATE_def CAN_ERROR_NL_START_def CAN_ERROR_NL_STOP_def
  CAN_ERROR_NL_STATE_MISSMATCH_def CAN_ERROR_NL_BITRATE_def CAN_ERROR_NL_RESTART_def
  CAN_ERROR_NL_SET_RESTART_MS_def CAN_ERROR_NL_GET_RESTART_MS_def
  CAN_ERROR_NL_RSTMS_MISSMATCH_def CAN_ERROR_NL_SET_CTRL_MODE_def
  CAN_ERROR_NL_GET_CTRL_MODE_def CAN_ERROR_NL_CTRL_MISSMATCH_def
  CAN_ERROR_NL_GET_DEV_STATS_def CAN_ERROR_NL_SET_BIT_TIMING_def
  CAN_ERROR_NL_GET_BIT_TIMING_def CAN_ERROR_NL_BT_MISSMATCH_def
  CAN_ERROR_NL_GET_BIT_ERR_CNT_def CAN_ERROR_NL_BR_MISSMATCH_def CAN_ERROR_TX_SKT_CREATE_def
  CAN_ERROR_TX_SKT_WR_def CAN_ERROR_TX_SKT_BIND_def CAN_ERROR_TX_RETRY_LATER_def
  CAN_ERROR_INCOMP_FRAME_def CAN_ERROR_SETSKTOPT_RAW_FLT_def CAN_ERROR_SETSKTOPT_ERR_FLT_def
  CAN_ERROR_SETSKTOPT_CANFD_def CAN_ERROR_SETSKTOPT_TIMESTAMP_def
  CAN_ERROR_SETSKTOPT_SNDBUF_def CAN_ERROR_GETSKTOPT_SNDBUF_def CAN_ERROR_SETSKTOPT_RCVBUF_def
  CAN_ERROR_GETSKTOPT_RCVBUF_def CAN_ERROR_DROPPED_FRAMES_def CAN_ERROR_NOT_CANFD_def
  CAN_ERROR_SIOCGIFMTU_def CAN_ERROR_NETWORK_DOWN_def CAN_ERROR_RX_SKT_CREATE_def
  CAN_ERROR_RX_SKT_BIND_def CAN_ERROR_REG_ERR_HDLR_def CAN_ERROR_ERR_CB_ALR_REG_def
  CAN_ERROR_ERR_CB_NOT_FOUND_def CAN_ERROR_RX_CB_ALR_REG_def CAN_ERROR_RX_CB_NOT_FOUND_def
  CAN_ERROR_THREAD_ALLOC_def CAN_ERROR_THREAD_CREATE_def CAN_ERROR_THREAD_MUTEX_INIT_def
  CAN_ERROR_THREAD_MUTEX_LOCK_def

lemma can_error_codes_positive:
  "0 < CAN_ERROR_NULL_INTERFACE" "0 < CAN_ERROR_TX_RETRY_LATER" "0 < CAN_ERROR_TX_SKT_WR"
  "0 < CAN_ERROR_INCOMP_FRAME" "0 < CAN_ERROR_NOT_CANFD" "0 < CAN_ERROR_NETWORK_DOWN"
  "0 < CAN_ERROR_DROPPED_FRAMES"
  by (simp_all add: can_error_defs)

lemma can_error_str_length: "length can_error_str = nat (CAN_ERROR_MAX + 1)"
  by (simp add: can_error_str_def)

lemma can_error_str_nth:
  assumes "0 \<le> i" "i \<le> CAN_ERROR_MAX"
  shows "array_read can_error_str i = Inr (map_of can_error_str_init i)"
proof -
  from assms have lt: "nat i < nat (CAN_ERROR_MAX + 1)" by simp
  then have "can_error_str ! nat i = map_of can_error_str_init (int (nat i))"
    unfolding can_error_str_def by (simp only: nth_map length_upt nth_upt diff_zero add_0)
  with assms lt show ?thesis by (simp add: array_read_def can_error_str_length)
qed

lemma ldx_can_strerror_no_mem: "ldx_can_strerror CAN_ERROR_NO_MEM = Inr (Some ''No memory'')"
  by (simp add: ldx_can_strerror_def can_error_str_nth can_error_defs CAN_ERROR_MAX_def
      can_error_str_init_def)

text \<open>
  Claim C10. \<^verbatim>\<open>ldx_can_strerror\<close> is total and never reads the string table out of bounds
  (the result is never the fault of \<open>array_read\<close>): for every integer error code it returns
  \<^verbatim>\<open>NULL\<close> unless \<open>0 < error < CAN_ERROR_MAX\<close>; the code 0 and every out-of-range code give
  no string, and an in-range code with no table entry gives \<^verbatim>\<open>NULL\<close>.
\<close>

theorem ldx_can_strerror_total:
  "(\<exists>r. ldx_can_strerror error = Inr r) \<and>
   ldx_can_strerror 0 = Inr None \<and>
   (\<not> (0 < error \<and> error < CAN_ERROR_MAX) \<longrightarrow> ldx_can_strerror error = Inr None) \<and>
   (0 < error \<and> error < CAN_ERROR_MAX \<and> error \<notin> fst ` set can_error_str_init
      \<longrightarrow> ldx_can_strerror error = Inr None)"
proof -
  have in_range: "ldx_can_strerror error = Inr (map_of can_error_str_init error)"
    if "0 < error" "error < CAN_ERROR_MAX"
    using that can_error_str_nth [of error] by (simp add: ldx_can_strerror_def)
  have out_range: "ldx_can_strerror error = Inr None" if "\<not> (0 < error \<and> error < CAN_ERROR_MAX)"
    using that by (auto simp: ldx_can_strerror_def)
  have hole: "ldx_can_strerror error = Inr None"
    if "0 < error" "error < CAN_ERROR_MAX" "error \<notin> fst ` set can_error_str_init"
    using that in_range by (simp add: map_of_eq_None_iff)
  have zero: "ldx_can_strerror 0 = Inr None" by (simp add: ldx_can_strerror_def)
  from in_range out_range have "\<exists>r. ldx_can_strerror error = Inr r" by blast
  with zero out_range hole show ?thesis by blast
qed

theorem ldx_can_strerror_total_witness:
  "\<not> (0 < (1000::int) \<and> 1000 < CAN_ERROR_MAX) \<and> ldx_can_strerror 1000 = Inr None \<and>
   (0 < CAN_ERROR_SIOCGIFMTU \<and> CAN_ERROR_SIOCGIFMTU < CAN_ERROR_MAX \<and>
    CAN_ERROR_SIOCGIFMTU \<notin> fst ` set can_error_str_init) \<and>
   ldx_can_strerror CAN_ERROR_SIOCGIFMTU = Inr None"
  using ldx_can_strerror_total [of 1000] ldx_can_strerror_total [of CAN_ERROR_SIOCGIFMTU]
  by (simp add: can_error_defs CAN_ERROR_MAX_def can_error_str_init_def)

section \<open>Transmit path\<close>

text \<open>What \<^verbatim>\<open>ldx_can_tx_frame\<close> returns for the results of \<^verbatim>\<open>write\<close> it tells apart.\<close>

lemma ldx_can_tx_frame_retry_later:
  "w_ret w = - 1 \<Longrightarrow> w_errno w = ENOBUFS \<or> w_errno w = EAGAIN \<Longrightarrow>
   fst (ldx_can_tx_frame (Some cif) fr w) = - CAN_ERROR_TX_RETRY_LATER"
  by (auto simp: ldx_can_tx_frame_def Let_def)

lemma ldx_can_tx_frame_write_error:
  "w_ret w < - 1 \<Longrightarrow> fst (ldx_can_tx_frame (Some cif) fr w) = - CAN_ERROR_TX_SKT_WR"
  by (auto simp: ldx_can_tx_frame_def Let_def)

lemma ldx_can_tx_frame_incomplete:
  "0 \<le> w_ret w \<Longrightarrow> w_ret w < (if canfd_enabled (cfg cif) then CANFD_MTU else CAN_MTU) \<Longrightarrow>
   fst (ldx_can_tx_frame (Some cif) fr w) = - CAN_ERROR_INCOMP_FRAME"
  by (auto simp: ldx_can_tx_frame_def Let_def)

lemma ldx_can_tx_frame_full:
  "(if canfd_enabled (cfg cif) then CANFD_MTU else CAN_MTU) \<le> w_ret w \<Longrightarrow>
   fst (ldx_can_tx_frame (Some cif) fr w) = EXIT_SUCCESS"
  by (auto simp: ldx_can_tx_frame_def Let_def CAN_MTU_def CANFD_MTU_def split: if_splits)

text \<open>
  Claim C2. For every call to \<^verbatim>\<open>ldx_can_tx_frame\<close> on a non-null interface, a write failure
  with \<^verbatim>\<open>ENOBUFS\<close> or \<^verbatim>\<open>EAGAIN\<close> returns the retry-later code, every other negative write
  result returns the fatal write-error code, a short write returns the incomplete-frame
  code, and only a full write returns success.

  The code does not do this. \<^verbatim>\<open>write\<close> reports every failure as -1, and under
  \<^verbatim>\<open>if (ret == -1)\<close> only the two transient values of \<^verbatim>\<open>errno\<close> return; with any other
  \<^verbatim>\<open>errno\<close> control leaves the chain (the branch \<^verbatim>\<open>else if (ret < 0)\<close> that logs and returns
  \<^verbatim>\<open>-CAN_ERROR_TX_SKT_WR\<close> is not taken) and reaches \<^verbatim>\<open>return EXIT_SUCCESS\<close>. The theorem
  evaluates the function for a failed write with \<^verbatim>\<open>ENETDOWN\<close>, on any interface and frame.
\<close>

theorem ldx_can_tx_frame_other_errno_is_success:
  "fst (ldx_can_tx_frame (Some cif) fr \<lparr>w_ret = - 1, w_errno = ENETDOWN\<rparr>) = EXIT_SUCCESS \<and>
   EXIT_SUCCESS \<noteq> - CAN_ERROR_TX_SKT_WR"
  by (simp add: ldx_can_tx_frame_def Let_def ENETDOWN_def ENOBUFS_def EAGAIN_def EXIT_SUCCESS_def
      CAN_ERROR_TX_SKT_WR_def)

section \<open>Dispatch\<close>

text \<open>Both callback loops as maps over the entries with a handler.\<close>

lemma call_err_handlers_map:
  "call_err_handlers l e = map (\<lambda>h. Err_call h e) (List.map_filter can_err_cb.handler l)"
  by (induction l) (auto split: option.splits)

lemma call_rx_handlers_map:
  "call_rx_handlers l evt =
     map (\<lambda>h. Rx_call h (frame evt) (tstamp evt))
       (List.map_filter can_cb.handler
          (filter (\<lambda>cb. can_cb.rx_skt cb = ldx_can_event.rx_skt evt) l))"
  by (induction l) (auto split: option.splits)

lemma filter_err_call_err:
  "filter is_Err_call (map (\<lambda>h. Err_call h e) hs) = map (\<lambda>h. Err_call h e) hs"
  by (induction hs) auto

lemma filter_err_call_rx: "filter is_Err_call (map (\<lambda>h. Rx_call h f t) hs) = []"
  by (induction hs) auto

lemma filter_rx_call_rx:
  "filter is_Rx_call (map (\<lambda>h. Rx_call h f t) hs) = map (\<lambda>h. Rx_call h f t) hs"
  by (induction hs) auto

lemma filter_rx_call_err: "filter is_Rx_call (map (\<lambda>h. Err_call h e) hs) = []"
  by (induction hs) auto

text \<open>Reading an error frame that arrives with an overflow count gives an event with all
  three of \<open>is_rx\<close>, \<open>is_error\<close> and a nonzero dropped-frame counter.\<close>

lemma read_error_frame:
  "fst (snd (ldx_can_read_rx_socket_i (cif_callbacks\<lparr>cfg := cfg_polled\<rparr>) 4 evt_zero
               kernel_error_frame)) = evt_error_dropped"
  by (simp add: ldx_can_read_rx_socket_i_def recvmsg_def Let_def cfg_polled_def cfg_zero_def
      ldx_can_io_set_evt_ptr_def ldx_can_io_clear_evt_ptr_def CAN_ERR_FLAG_def
      cif_callbacks_def cif_calloc_def kernel_error_frame_def kernel_0_def evt_error_dropped_def
      evt_zero_def frame_error_def)

text \<open>
  Claim C1. For every dispatched event whose dropped-frame counter is nonzero,
  \<^verbatim>\<open>ldx_can_dispatch_evt\<close> invokes each registered error callback exactly once with
  \<^verbatim>\<open>CAN_ERROR_DROPPED_FRAMES\<close> during that dispatch call, regardless of whether the event is
  also flagged as an error event.

  This fails. The dropped-frames call sits in the branch \<^verbatim>\<open>else if (evt->is_rx)\<close>, which an
  error event never enters and an event without the receive flag never enters. The event
  \<open>evt_error_dropped\<close> is what \<^verbatim>\<open>ldx_can_read_rx_socket_i\<close> decodes from an error frame that
  arrives with an overflow count (lemma \<open>read_error_frame\<close>); dispatching it calls the error
  handlers with the frame identifier only.
\<close>

theorem dispatch_dropped_frames_counterexample:
  "ldx_can_event.dropped_frames evt_error_dropped \<noteq> 0 \<and>
   ldx_can_dispatch_evt cif_callbacks evt_error_dropped =
     [Err_call 11 536870916, Err_call 1 536870916] \<and>
   count_list (ldx_can_dispatch_evt cif_callbacks evt_error_dropped)
     (Err_call 11 CAN_ERROR_DROPPED_FRAMES) = 0 \<and>
   ldx_can_event.dropped_frames evt_only_dropped \<noteq> 0 \<and>
   ldx_can_dispatch_evt cif_callbacks evt_only_dropped = []"
  by (simp add: ldx_can_dispatch_evt_def CAN_ERROR_DROPPED_FRAMES_def cif_callbacks_def
      cif_calloc_def evt_error_dropped_def evt_only_dropped_def evt_zero_def frame_error_def)

text \<open>
  Claim C1, amended. For every dispatched event that is flagged as a receive event and not
  as an error event and whose dropped-frame counter is nonzero, \<^verbatim>\<open>ldx_can_dispatch_evt\<close>
  invokes each registered error callback (each entry with a non-null handler) exactly once
  with \<^verbatim>\<open>CAN_ERROR_DROPPED_FRAMES\<close> during that dispatch call, in list order, and makes no other
  error-callback call.
\<close>

theorem dispatch_rx_dropped_frames:
  assumes "is_rx evt" and "\<not> is_error evt" and "ldx_can_event.dropped_frames evt \<noteq> 0"
  shows "filter is_Err_call (ldx_can_dispatch_evt cif evt) =
         map (\<lambda>h. Err_call h CAN_ERROR_DROPPED_FRAMES)
           (List.map_filter can_err_cb.handler (err_cb_list_head (pdata cif)))"
  using assms
  by (simp add: ldx_can_dispatch_evt_def ldx_can_call_err_cb_def call_err_handlers_map
      call_rx_handlers_map filter_err_call_err filter_err_call_rx)

theorem dispatch_rx_dropped_frames_witness:
  "is_rx evt_rx_dropped \<and> \<not> is_error evt_rx_dropped \<and>
   ldx_can_event.dropped_frames evt_rx_dropped \<noteq> 0 \<and>
   filter is_Err_call (ldx_can_dispatch_evt cif_callbacks evt_rx_dropped) =
     [Err_call 11 CAN_ERROR_DROPPED_FRAMES, Err_call 1 CAN_ERROR_DROPPED_FRAMES]"
  using dispatch_rx_dropped_frames [of evt_rx_dropped cif_callbacks]
  by (simp add: cif_callbacks_def cif_calloc_def evt_rx_dropped_def evt_zero_def)

text \<open>
  Claim C4. For every dispatched event flagged as a receive event (and not as an error
  event) with origin socket \<open>S\<close>, \<^verbatim>\<open>ldx_can_dispatch_evt\<close> invokes exactly those
  receive-callback entries whose owning socket descriptor equals \<open>S\<close>, and never a receive
  callback registered against a different socket. (An entry registered with a null handler
  has nothing to invoke.) The receive calls of the dispatch are, in list order, the handlers
  of the entries whose socket is \<open>S\<close>, each called with the event's frame and timestamp.
\<close>

theorem dispatch_rx_only_origin_socket:
  assumes "is_rx evt" and "\<not> is_error evt"
  shows "filter is_Rx_call (ldx_can_dispatch_evt cif evt) =
         map (\<lambda>h. Rx_call h (frame evt) (tstamp evt))
           (List.map_filter can_cb.handler
              (filter (\<lambda>cb. can_cb.rx_skt cb = ldx_can_event.rx_skt evt)
                 (rx_cb_list_head (pdata cif))))"
  using assms
  by (simp add: ldx_can_dispatch_evt_def ldx_can_call_err_cb_def call_err_handlers_map
      call_rx_handlers_map filter_rx_call_err filter_rx_call_rx)

theorem dispatch_rx_only_origin_socket_witness:
  "is_rx evt_rx_dropped \<and> \<not> is_error evt_rx_dropped \<and>
   ldx_can_event.rx_skt evt_rx_dropped = 4 \<and>
   filter is_Rx_call (ldx_can_dispatch_evt cif_callbacks evt_rx_dropped) =
     [Rx_call 20 frame_0x123 \<lparr>timeval.tv_sec = 0, tv_usec = 0\<rparr>]"
  using dispatch_rx_only_origin_socket [of evt_rx_dropped cif_callbacks]
  by (simp add: cif_callbacks_def cif_calloc_def evt_rx_dropped_def evt_zero_def)

section \<open>Polling\<close>

text \<open>The return value of one drain: that of the first read that is not positive.\<close>

lemma process_rx_socket_ret:
  "fst (ldx_can_process_rx_socket cif rx_cb k) =
     (case ldx_can_read_rx_socket_i cif (can_cb.rx_skt rx_cb) evt_zero k of (ret, evt, cif', k') \<Rightarrow>
        if ret > 0 then fst (ldx_can_process_rx_socket cif' rx_cb k') else ret)"
  by (subst ldx_can_process_rx_socket.simps) (simp split: prod.splits)

lemma read_rx_frame:
  "sock_queue k skt = m # ms \<Longrightarrow> 0 < r_nbytes m \<Longrightarrow>
   \<exists>evt cif'. ldx_can_read_rx_socket_i cif skt evt_zero k
      = (r_nbytes m, evt, cif', k\<lparr>sock_queue := (sock_queue k)(skt := ms)\<rparr>)"
  by (simp add: ldx_can_read_rx_socket_i_def recvmsg_def Let_def)

lemma read_rx_net_down:
  "sock_queue k skt = m # ms \<Longrightarrow> r_nbytes m < 0 \<Longrightarrow> r_errno m = ENETDOWN \<Longrightarrow>
   fst (ldx_can_read_rx_socket_i cif skt evt_zero k) = - CAN_ERROR_NETWORK_DOWN"
  by (simp add: ldx_can_read_rx_socket_i_def recvmsg_def Let_def)

text \<open>Draining socket 4 of \<open>kernel_net_down\<close> reads the frame, then fails with network down.\<close>

lemma drain_net_down:
  "fst (ldx_can_process_rx_socket cif_callbacks \<lparr>can_cb.rx_skt = 4, can_cb.handler = Some 20\<rparr>
          kernel_net_down) = - CAN_ERROR_NETWORK_DOWN"
proof -
  let ?m1 = "\<lparr>r_nbytes = 16, r_errno = 0, r_frame = frame_0x123, r_cmsgs = []\<rparr>"
  let ?m2 = "\<lparr>r_nbytes = - 1, r_errno = ENETDOWN, r_frame = frame evt_zero, r_cmsgs = []\<rparr>"
  let ?cb = "\<lparr>can_cb.rx_skt = 4, can_cb.handler = Some 20\<rparr>"
  let ?k1 = "kernel_net_down\<lparr>sock_queue := (sock_queue kernel_net_down)(4 := [?m2])\<rparr>"
  have q: "sock_queue kernel_net_down 4 = [?m1, ?m2]"
    by (simp add: kernel_net_down_def)
  obtain evt cif' where r1: "ldx_can_read_rx_socket_i cif_callbacks 4 evt_zero kernel_net_down
      = (16, evt, cif', ?k1)"
    using read_rx_frame [OF q, of cif_callbacks] by auto
  have r2: "fst (ldx_can_read_rx_socket_i cif' 4 evt_zero ?k1) = - CAN_ERROR_NETWORK_DOWN"
    by (rule read_rx_net_down [where m = ?m2 and ms = "[]"]) simp_all
  have "fst (ldx_can_process_rx_socket cif_callbacks ?cb kernel_net_down)
        = fst (ldx_can_process_rx_socket cif' ?cb ?k1)"
    by (subst process_rx_socket_ret) (simp add: r1)
  also have "\<dots> = - CAN_ERROR_NETWORK_DOWN"
    using r2
    by (subst process_rx_socket_ret) (auto simp: CAN_ERROR_NETWORK_DOWN_def split: prod.splits)
  finally show ?thesis .
qed

text \<open>
  Claim C9. For every call to \<^verbatim>\<open>ldx_can_poll\<close> in which the wait reports at least one ready
  descriptor, the function returns 0 to the caller, even when draining a ready socket fails
  with the fatal network-down condition. The drains end because each positive read takes a
  datagram off a finite queue (the termination proofs above), so the function does return.
\<close>

theorem ldx_can_poll_ready_returns_0:
  assumes "0 < sel_ret sel"
  shows "fst (ldx_can_poll cif sel k) = 0"
  using assms by (simp add: ldx_can_poll_def split: prod.splits)

theorem ldx_can_poll_ready_returns_0_witness:
  "0 < sel_ret select_ready_4 \<and>
   fst (ldx_can_process_rx_socket cif_callbacks \<lparr>can_cb.rx_skt = 4, can_cb.handler = Some 20\<rparr>
          kernel_net_down) = - CAN_ERROR_NETWORK_DOWN \<and>
   fst (ldx_can_poll cif_callbacks select_ready_4 kernel_net_down) = 0"
  using ldx_can_poll_ready_returns_0 [of select_ready_4 cif_callbacks kernel_net_down]
    drain_net_down
  by (simp add: select_ready_4_def)

text \<open>What the two poll variants return when \<^verbatim>\<open>select\<close> fails and was not interrupted.\<close>

lemma ldx_can_poll_one_select_error:
  "sel_ret sel < 0 \<Longrightarrow> sel_errno sel \<noteq> EINTR \<Longrightarrow>
   ldx_can_poll_one cif sel evt k = (sel_errno sel, evt, ldx_can_io_set_evt_ptr cif, k)"
  by (simp add: ldx_can_poll_one_def Let_def)

lemma ldx_can_poll_select_error:
  "sel_ret sel < 0 \<Longrightarrow> sel_errno sel \<noteq> EINTR \<Longrightarrow> fst (ldx_can_poll cif sel k) = sel_ret sel"
  by (simp add: ldx_can_poll_def)

text \<open>
  Claim C7. Whenever the wait of the single-shot poll fails with a result other than
  interrupted, \<^verbatim>\<open>ldx_can_poll_one\<close> returns the failure to the caller as a negated error code
  (a negative value) with no event pending.

  The code leaves the event untouched but executes \<^verbatim>\<open>return errno\<close>: the value is the
  positive \<^verbatim>\<open>errno\<close>, which a caller cannot tell from the positive count of a successful
  poll. The sibling \<^verbatim>\<open>ldx_can_poll\<close> returns the negative result of \<^verbatim>\<open>select\<close> on the same path
  (lemma \<open>ldx_can_poll_select_error\<close>). The same \<^verbatim>\<open>return\<close> also skips
  \<^verbatim>\<open>ldx_can_io_clear_evt_ptr\<close>. The theorem evaluates the function for a \<^verbatim>\<open>select\<close> that fails
  with \<^verbatim>\<open>EBADF\<close>, on any interface, event and kernel state.
\<close>

theorem ldx_can_poll_one_returns_positive_errno:
  "ldx_can_poll_one cif \<lparr>sel_ret = - 1, sel_errno = EBADF, sel_fds = fds\<rparr> evt k
     = (EBADF, evt, ldx_can_io_set_evt_ptr cif, k) \<and> 0 < EBADF"
  by (simp add: ldx_can_poll_one_def Let_def EBADF_def EINTR_def)

section \<open>Interface initialisation\<close>

text \<open>
  Claim C8. When CAN FD mode is requested and the interface's link MTU does not support it,
  \<^verbatim>\<open>ldx_can_init\<close> fails with the not-CAN-FD-capable condition returned as a negated
  (negative) error code, and the transmit socket it created is closed before returning.

  The socket is closed, but the code sets \<^verbatim>\<open>ret = CAN_ERROR_NOT_CANFD\<close> without the minus sign
  that every other error path of the function has, so the value returned is positive. The
  theorem evaluates the function with CAN FD requested, every call succeeding, transmit
  socket 3 and the link MTU of classic CAN, on any handle and kernel state.
\<close>

theorem ldx_can_init_not_canfd_positive:
  "fst (ldx_can_init h (Some cif) cfg_polled_canfd init_env_ok k) = CAN_ERROR_NOT_CANFD \<and>
   0 < CAN_ERROR_NOT_CANFD \<and>
   tx_skt (pdata (the (fst (snd (ldx_can_init h (Some cif) cfg_polled_canfd init_env_ok k))))) = 3 \<and>
   3 \<notin> open_fds (snd (snd (ldx_can_init h (Some cif) cfg_polled_canfd init_env_ok k)))"
  by (simp add: ldx_can_init_def init_tx_socket_def init_tx_ifindex_def init_tx_canfd_def
      Let_def init_env_ok_def cfg_polled_canfd_def cfg_polled_def cfg_zero_def CAN_MTU_def
      CANFD_MTU_def socket_fd_def close_fd_def CAN_ERROR_NOT_CANFD_def)

section \<open>The wait-set and its maximum descriptor\<close>

text \<open>Each operation on receive sockets keeps \<open>maxfd\<close> above the wait-set.\<close>

lemma fds_bounded_calloc: "fds_bounded (pdata (cif_calloc h if_name))"
  by (simp add: fds_bounded_def cif_calloc_def)

lemma fds_bounded_init_rx_socket:
  "fds_bounded (pdata cif) \<Longrightarrow>
   fds_bounded (pdata (snd (ldx_can_init_rx_socket cif skt filters nfilters env)))"
  by (auto simp: ldx_can_init_rx_socket_def rx_socket_rcvbuf_def fds_bounded_def
      split: prod.splits option.splits if_splits)

lemma fds_bounded_open_rx_socket_impl:
  "fds_bounded (pdata cif) \<Longrightarrow>
   fds_bounded (pdata (fst (snd (ldx_can_open_rx_socket_impl cif filters nfilters socket_ret env k))))"
  using fds_bounded_init_rx_socket [of cif socket_ret filters nfilters env]
  by (auto simp: ldx_can_open_rx_socket_impl_def split: prod.splits)

lemma fds_bounded_close_rx_socket_impl:
  "fds_bounded (pdata cif) \<Longrightarrow>
   fds_bounded (pdata (fst (ldx_can_close_rx_socket_impl cif skt k)))"
  by (auto simp: ldx_can_close_rx_socket_impl_def fds_bounded_def Let_def)

lemma fds_bounded_open_rx_socket:
  "fds_bounded (pdata cif) \<Longrightarrow>
   \<exists>cif'. fst (snd (ldx_can_open_rx_socket (Some cif) filters nfilters lock_ret socket_ret env k))
            = Some cif' \<and> fds_bounded (pdata cif')"
  using fds_bounded_open_rx_socket_impl [of cif filters nfilters socket_ret env k]
  by (auto simp: ldx_can_open_rx_socket_def split: prod.splits)

lemma fds_bounded_close_rx_socket:
  "fds_bounded (pdata cif) \<Longrightarrow>
   \<exists>cif'. fst (snd (ldx_can_close_rx_socket (Some cif) skt lock_ret k)) = Some cif'
          \<and> fds_bounded (pdata cif')"
  using fds_bounded_close_rx_socket_impl [of cif skt k]
  by (auto simp: ldx_can_close_rx_socket_def split: prod.splits)

lemma fds_bounded_unregister_rx_handler:
  "fds_bounded (pdata cif) \<Longrightarrow>
   \<exists>cif'. fst (snd (ldx_can_unregister_rx_handler (Some cif) cb lock_ret k)) = Some cif'
          \<and> fds_bounded (pdata cif')"
proof (cases "find_rxcb_by_function cif cb")
  case None
  assume "fds_bounded (pdata cif)"
  with None show ?thesis by (simp add: ldx_can_unregister_rx_handler_def)
next
  case (Some rxcb)
  assume "fds_bounded (pdata cif)"
  with Some fds_bounded_close_rx_socket_impl [of cif "can_cb.rx_skt rxcb" k] show ?thesis
    by (auto simp: ldx_can_unregister_rx_handler_def split: prod.splits)
qed

lemma fds_bounded_register_rx_handler:
  "fds_bounded (pdata cif) \<Longrightarrow>
   \<exists>cif'. fst (snd (ldx_can_register_rx_handler (Some cif) cb filters nfilters lock_ret malloc_ok
                      socket_ret env k)) = Some cif' \<and> fds_bounded (pdata cif')"
  using fds_bounded_open_rx_socket_impl [of cif filters nfilters socket_ret env k]
  by (auto simp: ldx_can_register_rx_handler_def ldx_can_register_rx_handler_impl_def
      fds_bounded_def split: prod.splits)

text \<open>The steps of \<^verbatim>\<open>ldx_can_init\<close>: only the step after \<^verbatim>\<open>bind\<close> writes the wait-set.\<close>

lemma init_tx_ifindex_fds:
  "init_tx_ifindex cif env = (r, cif') \<Longrightarrow>
   can_fds (pdata cif') = can_fds (pdata cif) \<and> maxfd (pdata cif') = maxfd (pdata cif)
   \<and> tx_skt (pdata cif') = tx_skt (pdata cif)"
  by (auto simp: init_tx_ifindex_def Let_def split: if_splits)

lemma init_tx_canfd_fds:
  "init_tx_canfd cif env = (r, cif') \<Longrightarrow>
   can_fds (pdata cif') = can_fds (pdata cif) \<and> maxfd (pdata cif') = maxfd (pdata cif)
   \<and> tx_skt (pdata cif') = tx_skt (pdata cif)"
  by (auto simp: init_tx_canfd_def Let_def split: if_splits)

lemma init_tx_options_fds:
  "init_tx_options cif env = (r, cif') \<Longrightarrow>
   can_fds (pdata cif') = can_fds (pdata cif) \<and> maxfd (pdata cif') = maxfd (pdata cif)
   \<and> tx_skt (pdata cif') = tx_skt (pdata cif)"
  by (auto simp: init_tx_options_def Let_def split: if_splits)

lemma init_tx_fds_fds:
  "init_tx_fds cif env = (r, cif') \<Longrightarrow>
   can_fds (pdata cif') = {tx_skt (pdata cif)} \<and> maxfd (pdata cif') = tx_skt (pdata cif)
   \<and> tx_skt (pdata cif') = tx_skt (pdata cif)"
  by (auto simp: init_tx_fds_def ldx_can_register_error_handler_def Let_def
      split: if_splits prod.splits option.splits)

lemma init_thread_fds:
  "init_thread cif c env = (r, cif') \<Longrightarrow>
   can_fds (pdata cif') = can_fds (pdata cif) \<and> maxfd (pdata cif') = maxfd (pdata cif)
   \<and> tx_skt (pdata cif') = tx_skt (pdata cif)"
  by (auto simp: init_thread_def Let_def split: if_splits)

lemma init_tx_socket_fds:
  assumes "init_tx_socket cif c env k = (ret, cif', k')"
  shows "(can_fds (pdata cif') = can_fds (pdata cif) \<and> maxfd (pdata cif') = maxfd (pdata cif)
          \<and> ret \<noteq> CAN_ERROR_NONE)
         \<or> (can_fds (pdata cif') = {tx_skt (pdata cif')} \<and> maxfd (pdata cif') = tx_skt (pdata cif'))"
proof -
  let ?cif0 = "cif\<lparr>pdata := (pdata cif)\<lparr>tx_skt := tx_socket_ret env\<rparr>\<rparr>"
  obtain r1 c1 where s1: "init_tx_ifindex ?cif0 env = (r1, c1)" by fastforce
  obtain r2 c2 where s2: "init_tx_canfd c1 env = (r2, c2)" by fastforce
  obtain r3 c3 where s3: "init_tx_options c2 env = (r3, c3)" by fastforce
  obtain r4 c4 where s4: "init_tx_fds c3 env = (r4, c4)" by fastforce
  obtain r5 c5 where s5: "init_thread c4 c env = (r5, c5)" by fastforce
  note f1 = init_tx_ifindex_fds [OF s1] and f2 = init_tx_canfd_fds [OF s2]
    and f3 = init_tx_options_fds [OF s3] and f4 = init_tx_fds_fds [OF s4]
    and f5 = init_thread_fds [OF s5]
  have nz1: "r1 = Some x \<Longrightarrow> x \<noteq> CAN_ERROR_NONE" for x
    using s1 by (auto simp: init_tx_ifindex_def Let_def can_error_defs split: if_splits)
  have nz2: "r2 = Some x \<Longrightarrow> x \<noteq> CAN_ERROR_NONE" for x
    using s2 by (auto simp: init_tx_canfd_def Let_def can_error_defs split: if_splits)
  have nz3: "r3 = Some x \<Longrightarrow> x \<noteq> CAN_ERROR_NONE" for x
    using s3 by (auto simp: init_tx_options_def Let_def can_error_defs split: if_splits)
  show ?thesis
    using assms s1 s2 s3 s4 s5 f1 f2 f3 f4 f5 nz1 nz2 nz3
    by (auto simp: init_tx_socket_def Let_def can_error_defs split: if_splits option.splits)
qed

lemma ldx_can_init_fds:
  assumes "ldx_can_init h (Some cif) c env k = (ret, cifp, k')"
  shows "\<exists>cif'. cifp = Some cif' \<and>
           ((can_fds (pdata cif') = can_fds (pdata cif) \<and> maxfd (pdata cif') = maxfd (pdata cif)
             \<and> ret \<noteq> CAN_ERROR_NONE)
            \<or> (can_fds (pdata cif') = {tx_skt (pdata cif')}
                \<and> maxfd (pdata cif') = tx_skt (pdata cif')))"
proof -
  obtain r1 c1 k1 where s: "init_tx_socket (cif\<lparr>cfg := c\<rparr>) c env k = (r1, c1, k1)"
    by (metis prod_cases3)
  from init_tx_socket_fds [OF s] assms s show ?thesis
    by (auto simp: ldx_can_init_def Let_def CAN_ERROR_NONE_def split: if_splits)
qed

lemma fds_bounded_init:
  assumes "fds_bounded (pdata cif)"
  shows "\<exists>cif'. fst (snd (ldx_can_init h (Some cif) c env k)) = Some cif' \<and> fds_bounded (pdata cif')"
proof -
  obtain ret cifp k' where s: "ldx_can_init h (Some cif) c env k = (ret, cifp, k')"
    by (metis prod_cases3)
  from ldx_can_init_fds [OF s] assms s show ?thesis
    by (auto simp: fds_bounded_def)
qed

lemma ldx_can_init_success_fds:
  assumes "fst (ldx_can_init h (Some cif) c env k) = CAN_ERROR_NONE"
  shows "\<exists>cif'. fst (snd (ldx_can_init h (Some cif) c env k)) = Some cif' \<and>
           can_fds (pdata cif') = {tx_skt (pdata cif')} \<and> maxfd (pdata cif') = tx_skt (pdata cif')"
proof -
  obtain ret cifp k' where s: "ldx_can_init h (Some cif) c env k = (ret, cifp, k')"
    by (metis prod_cases3)
  from ldx_can_init_fds [OF s] assms s show ?thesis by auto
qed

text \<open>The run of \<open>run_init\<close>, \<open>run_open\<close> and \<open>run_close\<close>, evaluated.\<close>

lemma run_init_state:
  "run_init = (CAN_ERROR_NONE,
     Some ((cif_calloc macros_0 ''can0'')
       \<lparr>cfg := cfg_polled,
        pdata := (pdata (cif_calloc macros_0 ''can0''))
          \<lparr>tx_skt := 3, can_fds := {3}, maxfd := 3,
           err_cb_list_head := [\<lparr>can_err_cb.handler = Some ldx_can_default_error_handler\<rparr>],
           ifr_name := ''can0'', ifr_ifru := 2, addr_can_family := AF_CAN,
           addr_can_ifindex := 2\<rparr>\<rparr>),
     kernel_0\<lparr>open_fds := {0, 1, 2, 3}\<rparr>)"
  by (simp add: run_init_def ldx_can_request_by_name_def cif_calloc_def macros_0_def kernel_0_def
      init_env_ok_def cfg_polled_def cfg_zero_def ldx_can_init_def init_tx_socket_def init_tx_ifindex_def
      init_tx_canfd_def init_tx_options_def init_tx_fds_def init_thread_def
      ldx_can_register_error_handler_def ldx_can_lock_mutex_def find_errcb_by_function_def
      socket_fd_def Let_def IFNAMSIZ_def insert_commute)

lemma run_open_state:
  "fst run_open = 4 \<and> fst (snd run_open) \<noteq> None \<and>
   can_fds (pdata (the (fst (snd run_open)))) = {3, 4} \<and>
   maxfd (pdata (the (fst (snd run_open)))) = 4 \<and>
   rx_cb_list_head (pdata (the (fst (snd run_open)))) = [] \<and>
   \<not> has_mutex (pdata (the (fst (snd run_open))))"
  unfolding run_open_def run_init_state
  by (simp add: ldx_can_open_rx_socket_def ldx_can_open_rx_socket_impl_def
      ldx_can_init_rx_socket_def rx_socket_rcvbuf_def ldx_can_lock_mutex_def cif_calloc_def
      cfg_polled_def cfg_zero_def rx_skt_env_ok_def insert_commute)

text \<open>
  Claim C3. After every operation that adds or removes a socket descriptor (interface init,
  opening a receive socket, closing a receive socket, unregistering a receive handler), the
  private state's maximum-descriptor value equals the largest descriptor currently present
  in the wait-set.

  This fails after a close: \<^verbatim>\<open>ldx_can_close_rx_socket_impl\<close> clears the descriptor from the
  set and never touches \<^verbatim>\<open>maxfd\<close>; no code in \<^verbatim>\<open>can.c\<close> lowers \<^verbatim>\<open>maxfd\<close>. Initialise with transmit
  socket 3, open receive socket 4, close it: the wait-set is \<open>{3}\<close> and \<^verbatim>\<open>maxfd\<close> is 4.
\<close>

theorem maxfd_not_largest_after_close_counterexample:
  "fst run_init = CAN_ERROR_NONE \<and> fst run_open = 4 \<and> fst run_close = 0 \<and>
   fst (snd run_close) \<noteq> None \<and>
   can_fds (pdata (the (fst (snd run_close)))) = {3} \<and>
   maxfd (pdata (the (fst (snd run_close)))) = 4 \<and>
   maxfd (pdata (the (fst (snd run_close)))) \<noteq> Max (can_fds (pdata (the (fst (snd run_close)))))"
proof -
  obtain c where c: "fst (snd run_open) = Some c" using run_open_state by auto
  with run_open_state have st: "can_fds (pdata c) = {3, 4}" "maxfd (pdata c) = 4"
    "rx_cb_list_head (pdata c) = []" "\<not> has_mutex (pdata c)" by auto
  have "fst run_close = 0 \<and> fst (snd run_close) \<noteq> None \<and>
        can_fds (pdata (the (fst (snd run_close)))) = {3} \<and>
        maxfd (pdata (the (fst (snd run_close)))) = 4"
    unfolding run_close_def c using st
    by (simp add: ldx_can_close_rx_socket_def ldx_can_close_rx_socket_impl_def
        ldx_can_lock_mutex_def find_rxcb_by_fd_def Let_def insert_Diff_if)
  then show ?thesis using run_open_state by (simp add: run_init_state)
qed

text \<open>
  Claim C3, amended. After every operation that adds or removes a socket descriptor
  (interface init, opening a receive socket, closing a receive socket, unregistering a
  receive handler, and registering one), the private state's maximum-descriptor value is
  greater than or equal to every descriptor currently present in the wait-set, provided it
  was before the operation (it is on a fresh handle, lemma \<open>fds_bounded_calloc\<close>); and after
  a successful interface init the wait-set holds the transmit socket alone and the
  maximum-descriptor value equals it.
\<close>

theorem maxfd_bounds_wait_set:
  assumes "fds_bounded (pdata cif)"
  shows "(\<exists>cif'. fst (snd (ldx_can_init h (Some cif) c ienv k)) = Some cif' \<and> fds_bounded (pdata cif')
            \<and> (fst (ldx_can_init h (Some cif) c ienv k) = CAN_ERROR_NONE \<longrightarrow>
                 can_fds (pdata cif') = {tx_skt (pdata cif')}
                 \<and> maxfd (pdata cif') = tx_skt (pdata cif'))) \<and>
         (\<exists>cif'. fst (snd (ldx_can_open_rx_socket (Some cif) filters nfilters lock_ret socket_ret
                             renv k)) = Some cif' \<and> fds_bounded (pdata cif')) \<and>
         (\<exists>cif'. fst (snd (ldx_can_close_rx_socket (Some cif) skt lock_ret k)) = Some cif'
                 \<and> fds_bounded (pdata cif')) \<and>
         (\<exists>cif'. fst (snd (ldx_can_unregister_rx_handler (Some cif) cb lock_ret k)) = Some cif'
                 \<and> fds_bounded (pdata cif')) \<and>
         (\<exists>cif'. fst (snd (ldx_can_register_rx_handler (Some cif) cb filters nfilters lock_ret
                             malloc_ok socket_ret renv k)) = Some cif' \<and> fds_bounded (pdata cif'))"
proof -
  have "\<exists>cif'. fst (snd (ldx_can_init h (Some cif) c ienv k)) = Some cif' \<and> fds_bounded (pdata cif')
            \<and> (fst (ldx_can_init h (Some cif) c ienv k) = CAN_ERROR_NONE \<longrightarrow>
                 can_fds (pdata cif') = {tx_skt (pdata cif')}
                 \<and> maxfd (pdata cif') = tx_skt (pdata cif'))"
    using fds_bounded_init [OF assms, of h c ienv k] ldx_can_init_success_fds [of h cif c ienv k]
    by auto
  moreover note fds_bounded_open_rx_socket [OF assms, of filters nfilters lock_ret socket_ret renv k]
  moreover note fds_bounded_close_rx_socket [OF assms, of skt lock_ret k]
  moreover note fds_bounded_unregister_rx_handler [OF assms, of cb lock_ret k]
  moreover note fds_bounded_register_rx_handler [OF assms, of cb filters nfilters lock_ret
      malloc_ok socket_ret renv k]
  ultimately show ?thesis by (intro conjI)
qed

theorem maxfd_bounds_wait_set_witness:
  "fds_bounded (pdata cif_callbacks) \<and>
   (\<exists>cif'. fst (snd (ldx_can_close_rx_socket (Some cif_callbacks) 5 0 kernel_0)) = Some cif'
          \<and> fds_bounded (pdata cif')) \<and>
   (\<exists>cif'. fst (snd (ldx_can_open_rx_socket (Some cif_callbacks) None 0 0 6 rx_skt_env_ok kernel_0))
            = Some cif' \<and> fds_bounded (pdata cif'))"
  using maxfd_bounds_wait_set [of cif_callbacks macros_0 cfg_polled init_env_ok kernel_0 None 0 0 6
      rx_skt_env_ok 5 "Some 20" True]
  by (simp add: fds_bounded_def cif_callbacks_def cif_calloc_def)

end
